theory Spec2Isabelle
  imports Main "HOL-Library.Sublist"
begin

section \<open>The strings package\<close>

text \<open>
  A Go string is a sequence of bytes, here a \<open>string\<close> (a list of \<open>char\<close>).  The
  functions of package \<open>strings\<close> that LogAid calls are given on bytes, with the ASCII
  case mapping and the ASCII white space \<open>\t \n \v \f \r\<close> and space: this is what Go
  computes on ASCII text, and every tool name, trigger phrase and table entry of LogAid is
  ASCII.
\<close>

definition toLowerByte :: "char \<Rightarrow> char" where
  "toLowerByte c =
     (let n = (of_char c :: nat) in if 65 \<le> n \<and> n \<le> 90 then char_of (n + 32) else c)"

definition ToLower :: "string \<Rightarrow> string" where
  "ToLower s = map toLowerByte s"

definition isSpace :: "char \<Rightarrow> bool" where
  "isSpace c = (c = CHR 0x09 \<or> c = CHR 0x0A \<or> c = CHR 0x0B \<or> c = CHR 0x0C
                \<or> c = CHR 0x0D \<or> c = CHR 0x20)"

fun HasPrefix :: "string \<Rightarrow> string \<Rightarrow> bool" where
  "HasPrefix s [] = True"
| "HasPrefix [] (p # ps) = False"
| "HasPrefix (c # cs) (p # ps) = (c = p \<and> HasPrefix cs ps)"

definition HasSuffix :: "string \<Rightarrow> string \<Rightarrow> bool" where
  "HasSuffix s suf = HasPrefix (rev s) (rev suf)"

definition TrimSuffix :: "string \<Rightarrow> string \<Rightarrow> string" where
  "TrimSuffix s suf = (if HasSuffix s suf then take (length s - length suf) s else s)"

text \<open>\<open>strings.Index\<close>: the position of the first occurrence, \<open>None\<close> for Go's \<open>-1\<close>.\<close>

fun Index :: "string \<Rightarrow> string \<Rightarrow> nat option" where
  "Index [] sub = (if sub = [] then Some 0 else None)"
| "Index (c # cs) sub =
     (if HasPrefix (c # cs) sub then Some 0 else map_option Suc (Index cs sub))"

definition Contains :: "string \<Rightarrow> string \<Rightarrow> bool" where
  "Contains s sub = (Index s sub \<noteq> None)"

text \<open>\<open>strings.Replace(s, old, new, 1)\<close>: only the first occurrence is replaced.\<close>

definition Replace1 :: "string \<Rightarrow> string \<Rightarrow> string \<Rightarrow> string" where
  "Replace1 s old new =
     (case Index s old of
        None \<Rightarrow> s
      | Some i \<Rightarrow> take i s @ new @ drop (i + length old) s)"

definition TrimSpace :: "string \<Rightarrow> string" where
  "TrimSpace s = rev (dropWhile isSpace (rev (dropWhile isSpace s)))"

text \<open>\<open>strings.Fields\<close>: the maximal runs of bytes that are not white space.\<close>

function Fields :: "string \<Rightarrow> string list" where
  "Fields [] = []"
| "Fields (c # cs) =
     (if isSpace c then Fields cs
      else takeWhile (\<lambda>x. \<not> isSpace x) (c # cs)
           # Fields (dropWhile (\<lambda>x. \<not> isSpace x) cs))"
  by pat_completeness auto

termination
  by (relation "measure length") (auto simp: length_dropWhile_le less_Suc_eq_le)

fun Join :: "string list \<Rightarrow> string \<Rightarrow> string" where
  "Join [] sep = []"
| "Join [x] sep = x"
| "Join (x # y # ys) sep = x @ sep @ Join (y # ys) sep"

text \<open>
  \<open>strings.Split(s, sep)\<close> for a separator that is not empty (LogAid splits at
  \<open>,\<close>, \<open>@\<close> and the version operators of pip): the pieces between the occurrences of
  \<open>sep\<close>, found from the left.  The result always has a first element.
\<close>

function Split :: "string \<Rightarrow> string \<Rightarrow> string list" where
  "Split s sep =
     (if sep = [] then map (\<lambda>c. [c]) s
      else case Index s sep of
             None \<Rightarrow> [s]
           | Some i \<Rightarrow> take i s # Split (drop (i + length sep) s) sep)"
  by pat_completeness auto

termination
proof (relation "measure (\<lambda>(s, sep). length s)", goal_cases)
  case 1
  show ?case by simp
next
  case (2 s sep i)
  have found: "Index t sep = Some j \<Longrightarrow> t \<noteq> []" for t j
    using \<open>sep \<noteq> []\<close> by (cases t) auto
  from 2 found [of s i] show ?case by (cases sep) auto
qed

text \<open>
  \<open>Fields\<close> and \<open>Split\<close> are unfolded on request only; concrete strings are evaluated
  with the code equations.
\<close>

declare Fields.simps [simp del]

declare Split.simps [simp del]

section \<open>Configuration, the outside world and the generative client\<close>

text \<open>
  A Go \<open>error\<close> is modelled by its message; \<open>nil\<close> is \<open>None\<close> where a function returns
  only an error, and \<open>Inl\<close> carries the error where it returns a value or an error.
\<close>

type_synonym error = string

text \<open>The fields of \<open>config.Config\<close> that the engine, the registry and the client read.\<close>

record Config =
  EnablePlugins :: string
  AutoConfirm :: bool
  AIProvider :: string
  GeminiAPIKey :: string
  OpenAIAPIKey :: string

text \<open>
  The client of package \<open>ai\<close>.  Its model name, base URL and timeout only shape the
  HTTP request and are left to the exchange \<open>http\<close> below.
\<close>

record AIClient =
  Provider :: string
  APIKey :: string

text \<open>
  Everything LogAid reads from outside during one run of the monitor:
  the global \<open>config.AppConfig\<close> (\<open>None\<close> for \<open>nil\<close>), the process environment, the
  HTTP exchange with the provider (the text of the first candidate, or the error of any
  step from marshalling to decoding), the rank that the Go runtime gives to each key when
  it ranges over the map of docker image names (the language leaves the order open), the
  line read from standard input (with its delimiter), the monitored command (its error, standard output and
  standard error) and the commands run for a suggestion.  Within one diagnosis each prompt
  is sent once, so the exchange is a function of the prompt.
\<close>

record world =
  AppConfig :: "Config option"
  getenv :: "string \<Rightarrow> string"
  http :: "AIClient \<Rightarrow> string \<Rightarrow> error + string"
  imageRank :: "string \<Rightarrow> nat"
  stdinLine :: "error + string"
  runMonitored :: "string list \<Rightarrow> error option \<times> string \<times> string"
  runSuggestion :: "string list \<Rightarrow> error option"

definition NewAIClient :: "world \<Rightarrow> AIClient option" where
  "NewAIClient w =
     (let p = (case AppConfig w of Some c \<Rightarrow> AIProvider c | None \<Rightarrow> getenv w ''AI_PROVIDER'');
          provider = (if p = [] then ''gemini'' else p)
      in if provider = ''gemini'' then
           (let key = (case AppConfig w of Some c \<Rightarrow> GeminiAPIKey c
                       | None \<Rightarrow> getenv w ''GEMINI_API_KEY'')
            in if key = [] then None else Some \<lparr>Provider = provider, APIKey = key\<rparr>)
         else if provider = ''openai'' then
           (let key = (case AppConfig w of Some c \<Rightarrow> OpenAIAPIKey c
                       | None \<Rightarrow> getenv w ''OPENAI_API_KEY'')
            in if key = [] then None else Some \<lparr>Provider = provider, APIKey = key\<rparr>)
         else None)"

text \<open>The two loops of \<open>extractCommand\<close>, then the function itself.\<close>

fun commandLine :: "string list \<Rightarrow> string option" where
  "commandLine [] = None"
| "commandLine (l # ls) =
     (let line = TrimSpace l
      in if line = [] \<or> HasPrefix line ''Explanation:'' \<or> HasPrefix line ''Note:''
            \<or> HasPrefix line ''The'' \<or> HasPrefix line ''This'' \<or> HasPrefix line ''Here''
         then commandLine ls
         else if HasPrefix line ''```'' then commandLine ls
         else if Contains line ''sudo'' \<or> Contains line ''apt'' \<or> Contains line ''npm''
                 \<or> Contains line ''git'' \<or> Contains line ''docker'' \<or> Contains line ''pip''
         then Some line
         else commandLine ls)"

fun plainLine :: "string list \<Rightarrow> string option" where
  "plainLine [] = None"
| "plainLine (l # ls) =
     (let line = TrimSpace l
      in if line \<noteq> [] \<and> \<not> HasPrefix line ''```'' then Some line else plainLine ls)"

definition extractCommand :: "string \<Rightarrow> string" where
  "extractCommand response =
     (let lines = Split response ''\<newline>''
      in case commandLine lines of
           Some line \<Rightarrow> line
         | None \<Rightarrow> (case plainLine lines of Some line \<Rightarrow> line | None \<Rightarrow> response))"

text \<open>
  \<open>GenerateSuggestion\<close>: \<open>callGemini\<close> and \<open>callOpenAI\<close> differ in the request they
  build; both trim the text they receive and pass it to \<open>extractCommand\<close>.
\<close>

definition GenerateSuggestion :: "world \<Rightarrow> AIClient \<Rightarrow> string \<Rightarrow> error + string" where
  "GenerateSuggestion w c prompt =
     (if Provider c = ''gemini'' \<or> Provider c = ''openai'' then
        (case http w c prompt of
           Inl e \<Rightarrow> Inl e
         | Inr text \<Rightarrow> Inr (extractCommand (TrimSpace text)))
      else Inl (''unsupported AI provider: '' @ Provider c))"

definition GetSuggestion :: "world \<Rightarrow> string \<Rightarrow> error + string" where
  "GetSuggestion w prompt =
     (case NewAIClient w of
        None \<Rightarrow> Inl ''failed to initialize AI client''
      | Some c \<Rightarrow> GenerateSuggestion w c prompt)"

section \<open>Matchers and the diagnosis engine\<close>

text \<open>
  What a run does is recorded as a trace of events: \<open>Run\<close>, the monitored command is
  started, its output copied to the terminal and captured; \<open>Diagnose\<close>, the entry of
  \<open>handleError\<close> with the command and the output; \<open>MatchCall\<close> and \<open>SuggestCall\<close>,
  the calls the engine makes to the methods of a plugin; \<open>AICall\<close>, a call of
  \<open>ai.GetSuggestion\<close> with its prompt; \<open>Present\<close>, the entry of \<open>presentSuggestion\<close>
  with the suggestion and its source; \<open>ReadLine\<close>, the read from standard input; and
  \<open>Exec\<close>, a command started by \<open>executeSuggestion\<close> on the standard streams of LogAid
  itself.  Log lines are not part of the trace.
\<close>

datatype event =
    Run "string list"
  | Diagnose string string
  | MatchCall string string string
  | SuggestCall string string string
  | AICall string
  | Present string string
  | ReadLine
  | Exec "string list"

text \<open>
  The interface \<open>Plugin\<close>.  \<open>Suggest\<close> reads the world through the generative client
  only; beside the suggestion it returns the prompts it sent to \<open>ai.GetSuggestion\<close>.
\<close>

record Plugin =
  Name :: string
  Match :: "string \<Rightarrow> string \<Rightarrow> bool"
  Suggest :: "world \<Rightarrow> string \<Rightarrow> string \<Rightarrow> string \<times> string list"

record Engine =
  plugins :: "Plugin list"

text \<open>
  The loop over the plugins that opens both \<open>ProcessError\<close> and \<open>handleError\<close>: the
  suggestion of the first plugin that matches and suggests something, with the name of that
  plugin, or \<open>None\<close> when the loop runs to its end.
\<close>

fun tryPlugins ::
  "world \<Rightarrow> Plugin list \<Rightarrow> string \<Rightarrow> string \<Rightarrow> (string \<times> string) option \<times> event list" where
  "tryPlugins w [] command output = (None, [])"
| "tryPlugins w (p # ps) command output =
     (if Match p command output then
        (let (suggestion, prompts) = Suggest p w command output;
             evs = [MatchCall (Name p) command output, SuggestCall (Name p) command output]
                   @ map AICall prompts
         in if suggestion \<noteq> [] then (Some (suggestion, Name p), evs)
            else (case tryPlugins w ps command output of (r, tr) \<Rightarrow> (r, evs @ tr)))
      else (case tryPlugins w ps command output of
              (r, tr) \<Rightarrow> (r, MatchCall (Name p) command output # tr)))"

definition enginePrompt :: "string \<Rightarrow> string \<Rightarrow> string" where
  "enginePrompt command output =
     ''Command: '' @ command @ ''\<newline>Error: '' @ output
     @ ''\<newline>Provide a corrected command:''"

definition ProcessError ::
  "world \<Rightarrow> Engine \<Rightarrow> string \<Rightarrow> string \<Rightarrow> (error + string) \<times> event list" where
  "ProcessError w e command output =
     (case tryPlugins w (plugins e) command output of
        (Some (suggestion, source), tr) \<Rightarrow> (Inr suggestion, tr)
      | (None, tr) \<Rightarrow>
          (case GetSuggestion w (enginePrompt command output) of
             Inl err \<Rightarrow> (Inl (''failed to get AI suggestion: '' @ err),
                         tr @ [AICall (enginePrompt command output)])
           | Inr suggestion \<Rightarrow> (Inr suggestion, tr @ [AICall (enginePrompt command output)])))"

section \<open>The matchers\<close>

definition containsAny :: "string \<Rightarrow> string list \<Rightarrow> bool" where
  "containsAny text patterns =
     (let lowerText = ToLower text
      in list_ex (\<lambda>pattern. Contains lowerText (ToLower pattern)) patterns)"

text \<open>
  Each \<open>getAISuggestion\<close> sends the prompt of its plugin to \<open>ai.GetSuggestion\<close> and
  returns the reply, or a fixed text of its own when the client returns an error.
\<close>

definition askAI :: "world \<Rightarrow> string \<Rightarrow> string \<Rightarrow> string \<times> string list" where
  "askAI w prompt generic =
     (case GetSuggestion w prompt of
        Inl err \<Rightarrow> (generic, [prompt])
      | Inr suggestion \<Rightarrow> (suggestion, [prompt]))"

subsection \<open>apt\<close>

definition AptPlugin_aptErrors :: "string list" where
  "AptPlugin_aptErrors =
     [''unable to locate package'', ''package not found'', ''e: could not get lock'',
      ''e: package'', ''has no installation candidate'', ''depends:'', ''unmet dependencies'',
      ''permission denied'', ''command not found'', ''broken packages'',
      ''held broken packages'', ''404 not found'', ''signature verification failed'',
      ''repository does not have a release file'']"

definition AptPlugin_corrections :: "(string \<times> string) list" where
  "AptPlugin_corrections =
     [(''rediscli'', ''redis-tools''), (''redis-cli'', ''redis-tools''),
      (''redisclient'', ''redis-tools''), (''mysql'', ''mysql-server''),
      (''mysqlserver'', ''mysql-server''), (''nodejs'', ''nodejs npm''),
      (''node'', ''nodejs npm''), (''python'', ''python3''), (''pip'', ''python3-pip''),
      (''python-pip'', ''python3-pip''), (''docker'', ''docker.io''),
      (''dockerio'', ''docker.io''), (''java'', ''openjdk-11-jdk''),
      (''jdk'', ''openjdk-11-jdk''), (''gcc'', ''build-essential''),
      (''make'', ''build-essential''), (''cmake'', ''cmake build-essential''),
      (''vim'', ''vim-gtk3''), (''emacs'', ''emacs-gtk''), (''firefox'', ''firefox-esr''),
      (''chrome'', ''google-chrome-stable''), (''chromium'', ''chromium-browser''),
      (''vscode'', ''code''), (''visualstudio'', ''code''), (''git'', ''git-all''),
      (''curl'', ''curl wget''), (''ssh'', ''openssh-client openssh-server''),
      (''sshd'', ''openssh-server''), (''nginx'', ''nginx-full''), (''apache'', ''apache2''),
      (''httpd'', ''apache2''), (''postgres'', ''postgresql postgresql-contrib''),
      (''postgresql'', ''postgresql postgresql-contrib''), (''sqlite'', ''sqlite3''),
      (''htop'', ''htop''), (''top'', ''htop''), (''nano'', ''nano''),
      (''unzip'', ''unzip zip''), (''tar'', ''tar gzip''), (''screen'', ''screen tmux''),
      (''tmux'', ''tmux''), (''tree'', ''tree''), (''less'', ''less''), (''jq'', ''jq''),
      (''net-tools'', ''net-tools''), (''ifconfig'', ''net-tools''),
      (''netstat'', ''net-tools''), (''telnet'', ''telnet''), (''ftp'', ''ftp''),
      (''rsync'', ''rsync''), (''scp'', ''openssh-client'')]"

definition AptPlugin_promptHead :: string where
  \<open>AptPlugin_promptHead =
       ''\<newline>''
     @ ''You are an expert Linux system administrator specializing in APT package management on Debian/Ubuntu systems.\<newline>''
     @ ''\<newline>''
     @ ''CONTEXT:\<newline>''
     @ ''- User executed command: ''\<close>

definition AptPlugin_promptMid :: string where
  \<open>AptPlugin_promptMid =
       ''\<newline>''
     @ ''- Command output/error: ''\<close>

definition AptPlugin_promptTail :: string where
  \<open>AptPlugin_promptTail =
       ''\<newline>''
     @ ''- System: Debian/Ubuntu with APT package manager\<newline>''
     @ ''- Goal: Provide the EXACT corrected command to fix the issue\<newline>''
     @ ''\<newline>''
     @ ''TASK:\<newline>''
     @ ''Analyze the command and error, then provide a single, executable command that will resolve the issue.\<newline>''
     @ ''\<newline>''
     @ ''RULES:\<newline>''
     @ ''1. Return ONLY the corrected command, no explanations\<newline>''
     @ ''2. Use proper APT syntax and package names\<newline>''
     @ ''3. Include sudo if needed for permissions\<newline>''
     @ ''4. Handle common issues: typos, missing packages, lock files, repository updates\<newline>''
     @ ''5. If package doesn't exist, suggest the closest alternative\<newline>''
     @ ''6. For dependency issues, suggest the complete fix\<newline>''
     @ ''7. Always prioritize safety and standard practices\<newline>''
     @ ''\<newline>''
     @ ''COMMON APT PATTERNS TO CONSIDER:\<newline>''
     @ ''- Package name typos (redis-cli '' @ [CHR 0xC3, CHR 0xA2, CHR 0xE2, CHR 0x80, CHR 0xA0, CHR 0xE2, CHR 0x80, CHR 0x99] @ '' redis-tools)\<newline>''
     @ ''- Missing sudo for install operations\<newline>''
     @ ''- Need to update package lists first\<newline>''
     @ ''- Lock file conflicts requiring cleanup\<newline>''
     @ ''- Missing repositories or keys\<newline>''
     @ ''- Dependency conflicts\<newline>''
     @ ''- Alternative package names\<newline>''
     @ ''\<newline>''
     @ ''EXAMPLES:\<newline>''
     @ ''- Input: "apt install rediscli" + "Unable to locate package rediscli"\<newline>''
     @ ''- Output: "sudo apt install redis-tools"\<newline>''
     @ ''\<newline>''
     @ ''- Input: "apt update" + "Permission denied"  \<newline>''
     @ ''- Output: "sudo apt update"\<newline>''
     @ ''\<newline>''
     @ ''Provide the corrected command:''\<close>

definition AptPlugin_Match :: "string \<Rightarrow> string \<Rightarrow> bool" where
  "AptPlugin_Match cmd output =
     (if \<not> Contains (ToLower cmd) ''apt'' then False
      else containsAny output AptPlugin_aptErrors)"

definition AptPlugin_getPackageCorrection :: "string \<Rightarrow> string" where
  "AptPlugin_getPackageCorrection packageName =
     (case map_of AptPlugin_corrections (ToLower packageName) of
        None \<Rightarrow> []
      | Some correction \<Rightarrow> correction)"

text \<open>The loop over the tokens of the command in \<open>getQuickFix\<close>, from token \<open>i\<close> on.\<close>

fun AptPlugin_packageLoop :: "string \<Rightarrow> string list \<Rightarrow> string" where
  "AptPlugin_packageLoop cmd (part # packageName # rest) =
     (if (part = ''install'' \<or> part = ''show'' \<or> part = ''search'')
         \<and> AptPlugin_getPackageCorrection packageName \<noteq> []
      then Replace1 cmd packageName (AptPlugin_getPackageCorrection packageName)
      else AptPlugin_packageLoop cmd (packageName # rest))"
| "AptPlugin_packageLoop cmd parts = []"

definition AptPlugin_getQuickFix :: "string \<Rightarrow> string \<Rightarrow> string" where
  "AptPlugin_getQuickFix cmd output =
     (let outputLower = ToLower output
      in if Contains outputLower ''could not get lock'' then
           ''sudo killall apt apt-get dpkg && sudo dpkg --configure -a && sudo apt update && ''
           @ cmd
         else if Contains outputLower ''permission denied'' \<and> \<not> Contains cmd ''sudo'' then
           ''sudo '' @ cmd
         else if Contains outputLower ''404'' \<or> Contains outputLower ''failed to fetch'' then
           ''sudo apt update && '' @ cmd
         else if Contains outputLower ''unable to locate package'' then
           AptPlugin_packageLoop cmd (Fields cmd)
         else [])"

definition AptPlugin_buildAIPrompt :: "string \<Rightarrow> string \<Rightarrow> string" where
  "AptPlugin_buildAIPrompt cmd output =
     AptPlugin_promptHead @ cmd @ AptPlugin_promptMid @ output @ AptPlugin_promptTail"

definition AptPlugin_getAISuggestion :: "world \<Rightarrow> string \<Rightarrow> string \<Rightarrow> string \<times> string list" where
  "AptPlugin_getAISuggestion w cmd output =
     askAI w (AptPlugin_buildAIPrompt cmd output)
       (''sudo apt update && apt search <package-name> && '' @ cmd)"

definition AptPlugin_Suggest :: "world \<Rightarrow> string \<Rightarrow> string \<Rightarrow> string \<times> string list" where
  "AptPlugin_Suggest w cmd output =
     (let quickFix = AptPlugin_getQuickFix cmd output
      in if quickFix \<noteq> [] then (quickFix, []) else AptPlugin_getAISuggestion w cmd output)"

definition AptPlugin :: Plugin where
  "AptPlugin = \<lparr>Name = ''apt'', Match = AptPlugin_Match, Suggest = AptPlugin_Suggest\<rparr>"

subsection \<open>npm\<close>

definition NpmPlugin_npmErrors :: "string list" where
  "NpmPlugin_npmErrors =
     [''unknown command:'', ''npm err! 404'', ''not found'', ''eacces: permission denied'',
      ''network request'', ''enotfound'', ''timeout'', ''npm err! missing script:'',
      ''cannot resolve dependency:'', ''peer dep warning'', ''deprecated warning'',
      ''audit found'', ''vulnerabilities found'', ''npm err! code enoent'',
      ''npm err! errno -4058'', ''npm err! path'', ''operation not permitted'']"

definition NpmPlugin_corrections :: "(string \<times> string) list" where
  "NpmPlugin_corrections =
     [(''instal'', ''install''), (''instll'', ''install''), (''insall'', ''install''),
      (''isntall'', ''install''), (''instlal'', ''install''), (''intall'', ''install''),
      (''i'', ''install''), (''stat'', ''start''), (''strt'', ''start''), (''str'', ''start''),
      (''tes'', ''test''), (''tst'', ''test''), (''ru'', ''run''), (''rn'', ''run''),
      (''updat'', ''update''), (''updte'', ''update''), (''upgrd'', ''upgrade''),
      (''uninsta'', ''uninstall''), (''uninstal'', ''uninstall''), (''remove'', ''uninstall''),
      (''rm'', ''uninstall''), (''lst'', ''list''), (''ls'', ''list''), (''info'', ''info''),
      (''inf'', ''info''), (''view'', ''view''), (''vw'', ''view''), (''search'', ''search''),
      (''find'', ''search''), (''audit'', ''audit''), (''audt'', ''audit''),
      (''outdated'', ''outdated''), (''outdate'', ''outdated''), (''init'', ''init''),
      (''int'', ''init''), (''publish'', ''publish''), (''pub'', ''publish''),
      (''unpublish'', ''unpublish''), (''version'', ''version''), (''ver'', ''version''),
      (''link'', ''link''), (''lnk'', ''link''), (''unlink'', ''unlink''),
      (''config'', ''config''), (''conf'', ''config''), (''cache'', ''cache''),
      (''chche'', ''cache'')]"

definition NpmPlugin_packageCorrections :: "(string \<times> string) list" where
  "NpmPlugin_packageCorrections =
     [(''expres'', ''express''), (''exprees'', ''express''), (''expresss'', ''express''),
      (''lodas'', ''lodash''), (''lodsh'', ''lodash''), (''lodassh'', ''lodash''),
      (''reac'', ''react''), (''react'', ''react''), (''reactt'', ''react''),
      (''axio'', ''axios''), (''axois'', ''axios''), (''axioss'', ''axios''),
      (''momen'', ''moment''), (''momnet'', ''moment''), (''momentt'', ''moment''),
      (''nod-fetch'', ''node-fetch''), (''node-fech'', ''node-fetch''),
      (''nodefetch'', ''node-fetch''), (''cheerio'', ''cheerio''), (''cherio'', ''cheerio''),
      (''cheeio'', ''cheerio''), (''socket.i'', ''socket.io''), (''socketio'', ''socket.io''),
      (''socket-io'', ''socket.io''), (''uuid'', ''uuid''), (''uui'', ''uuid''),
      (''uuuid'', ''uuid''), (''bcryp'', ''bcrypt''), (''bcrypt'', ''bcrypt''),
      (''bcryptjs'', ''bcryptjs''), (''jsonwebtoken'', ''jsonwebtoken''),
      (''jwt'', ''jsonwebtoken''), (''mongoose'', ''mongoose''), (''mongose'', ''mongoose''),
      (''mungoose'', ''mongoose''), (''sequelize'', ''sequelize''),
      (''sequlize'', ''sequelize''), (''sequeize'', ''sequelize''), (''cors'', ''cors''),
      (''cor'', ''cors''), (''corss'', ''cors''), (''helmet'', ''helmet''),
      (''helmt'', ''helmet''), (''helnet'', ''helmet''), (''morgan'', ''morgan''),
      (''morga'', ''morgan''), (''morganr'', ''morgan''), (''nodemon'', ''nodemon''),
      (''nodmon'', ''nodemon''), (''nodemn'', ''nodemon''), (''pm2'', ''pm2''),
      (''pm'', ''pm2''), (''dotenv'', ''dotenv''), (''dotev'', ''dotenv''),
      (''dontenv'', ''dotenv''), (''chalk'', ''chalk''), (''chlk'', ''chalk''),
      (''chalck'', ''chalk''), (''commander'', ''commander''), (''comander'', ''commander''),
      (''comandr'', ''commander''), (''inquirer'', ''inquirer''),
      (''inquierer'', ''inquirer''), (''inquirr'', ''inquirer''), (''fs-extra'', ''fs-extra''),
      (''fs-ext'', ''fs-extra''), (''fsextra'', ''fs-extra''), (''glob'', ''glob''),
      (''globb'', ''glob''), (''globo'', ''glob''), (''rimraf'', ''rimraf''),
      (''rimaf'', ''rimraf''), (''rmraf'', ''rimraf'')]"

definition NpmPlugin_commonScripts :: "string list" where
  "NpmPlugin_commonScripts =
     [''start'', ''dev'', ''build'', ''test'', ''lint'', ''serve'', ''watch'', ''deploy'',
      ''production'', ''development'', ''server'', ''client'', ''clean'', ''install'',
      ''update'', ''postinstall'', ''preinstall'', ''prebuild'', ''postbuild'', ''prestart'',
      ''poststart'', ''pretest'', ''posttest'']"

definition NpmPlugin_promptHead :: string where
  \<open>NpmPlugin_promptHead =
       ''\<newline>''
     @ ''You are an expert Node.js and NPM package manager specialist.\<newline>''
     @ ''\<newline>''
     @ ''CONTEXT:\<newline>''
     @ ''- User executed command: ''\<close>

definition NpmPlugin_promptMid :: string where
  \<open>NpmPlugin_promptMid =
       ''\<newline>''
     @ ''- Command output/error: ''\<close>

definition NpmPlugin_promptTail :: string where
  \<open>NpmPlugin_promptTail =
       ''\<newline>''
     @ ''- System: Node.js environment with NPM package manager\<newline>''
     @ ''- Goal: Provide the EXACT corrected command to fix the issue\<newline>''
     @ ''\<newline>''
     @ ''TASK:\<newline>''
     @ ''Analyze the command and error, then provide a single, executable command that will resolve the issue.\<newline>''
     @ ''\<newline>''
     @ ''RULES:\<newline>''
     @ ''1. Return ONLY the corrected command, no explanations\<newline>''
     @ ''2. Use proper NPM syntax and package names\<newline>''
     @ ''3. Include sudo if needed for global installations\<newline>''
     @ ''4. Handle common issues: typos, missing packages, permission errors, network issues\<newline>''
     @ ''5. If package doesn't exist, suggest the closest alternative\<newline>''
     @ ''6. For script issues, suggest the complete fix\<newline>''
     @ ''7. Always prioritize safety and standard practices\<newline>''
     @ ''\<newline>''
     @ ''COMMON NPM PATTERNS TO CONSIDER:\<newline>''
     @ ''- Command typos (instal '' @ [CHR 0xE2, CHR 0x86, CHR 0x92] @ '' install, stat '' @ [CHR 0xE2, CHR 0x86, CHR 0x92] @ '' start, ru '' @ [CHR 0xE2, CHR 0x86, CHR 0x92] @ '' run)\<newline>''
     @ ''- Package name typos (expres '' @ [CHR 0xE2, CHR 0x86, CHR 0x92] @ '' express, lodas '' @ [CHR 0xE2, CHR 0x86, CHR 0x92] @ '' lodash, reac '' @ [CHR 0xE2, CHR 0x86, CHR 0x92] @ '' react)\<newline>''
     @ ''- Missing sudo for global installations\<newline>''
     @ ''- Network connectivity issues\<newline>''
     @ ''- Registry configuration problems\<newline>''
     @ ''- Script name typos\<newline>''
     @ ''- Version conflicts\<newline>''
     @ ''- Permission issues with node_modules\<newline>''
     @ ''\<newline>''
     @ ''EXAMPLES:\<newline>''
     @ ''- Input: "npm instal express" + "Unknown command: instal"\<newline>''
     @ ''- Output: "npm install express"\<newline>''
     @ ''\<newline>''
     @ ''- Input: "npm install expres" + "404 Not Found - GET https://registry.npmjs.org/expres"\<newline>''
     @ ''- Output: "npm install express"\<newline>''
     @ ''\<newline>''
     @ ''- Input: "npm install -g typescript" + "EACCES: permission denied"\<newline>''
     @ ''- Output: "sudo npm install -g typescript"\<newline>''
     @ ''\<newline>''
     @ ''Provide the corrected command:''\<close>

definition NpmPlugin_Match :: "string \<Rightarrow> string \<Rightarrow> bool" where
  "NpmPlugin_Match cmd output =
     (if \<not> Contains (ToLower cmd) ''npm'' then False
      else containsAny output NpmPlugin_npmErrors)"

definition NpmPlugin_correctNpmCommand :: "string \<Rightarrow> string" where
  "NpmPlugin_correctNpmCommand cmd =
     (let parts = Fields cmd
      in if length parts \<ge> 2 then
           (case map_of NpmPlugin_corrections (parts ! 1) of
              Some correction \<Rightarrow> Join (parts[1 := correction]) '' ''
            | None \<Rightarrow> cmd)
         else cmd)"

text \<open>
  The loop of \<open>correctPackageName\<close>: \<open>passed\<close> holds the tokens already passed, so that
  \<open>passed @ part # packageName # rest\<close> is the whole of \<open>parts\<close>.  \<open>Split\<close> with a
  separator that is not empty returns at least one piece, so its element \<open>[0]\<close> exists.
\<close>

fun NpmPlugin_packageLoop :: "string \<Rightarrow> string list \<Rightarrow> string list \<Rightarrow> string" where
  "NpmPlugin_packageLoop cmd passed (part # packageName # rest) =
     (if part = ''install'' \<or> part = ''i'' then
        (let cleanPackage = hd (Split packageName ''@'')
         in case map_of NpmPlugin_packageCorrections cleanPackage of
              Some correction \<Rightarrow>
                Join (passed @ part # Replace1 packageName cleanPackage correction # rest) '' ''
            | None \<Rightarrow> NpmPlugin_packageLoop cmd (passed @ [part]) (packageName # rest))
      else NpmPlugin_packageLoop cmd (passed @ [part]) (packageName # rest))"
| "NpmPlugin_packageLoop cmd passed parts = cmd"

definition NpmPlugin_correctPackageName :: "string \<Rightarrow> string \<Rightarrow> string" where
  "NpmPlugin_correctPackageName cmd output = NpmPlugin_packageLoop cmd [] (Fields cmd)"

definition NpmPlugin_suggestScriptCommand :: "string \<Rightarrow> string \<Rightarrow> string" where
  "NpmPlugin_suggestScriptCommand cmd output =
     (let parts = Fields cmd
      in if length parts \<ge> 2 \<and> (parts ! 1 = ''run'' \<and> length parts \<ge> 3) then
           (case find (\<lambda>common. Contains common (parts ! 2) \<or> Contains (parts ! 2) common)
                   NpmPlugin_commonScripts of
              Some common \<Rightarrow> Join (parts[2 := common]) '' ''
            | None \<Rightarrow> ''npm run-script --help # List available scripts'')
         else ''npm run-script --help # List available scripts'')"

definition NpmPlugin_getQuickFix :: "string \<Rightarrow> string \<Rightarrow> string" where
  "NpmPlugin_getQuickFix cmd output =
     (let outputLower = ToLower output
      in if (Contains outputLower ''eacces'' \<or> Contains outputLower ''permission denied'')
            \<and> Contains cmd ''-g'' \<and> \<not> Contains cmd ''sudo'' then
           ''sudo '' @ cmd
         else if Contains outputLower ''unknown command:'' then
           NpmPlugin_correctNpmCommand cmd
         else if Contains outputLower ''404'' \<and> Contains outputLower ''not found'' then
           NpmPlugin_correctPackageName cmd output
         else if Contains outputLower ''missing script:'' then
           NpmPlugin_suggestScriptCommand cmd output
         else [])"

definition NpmPlugin_buildAIPrompt :: "string \<Rightarrow> string \<Rightarrow> string" where
  "NpmPlugin_buildAIPrompt cmd output =
     NpmPlugin_promptHead @ cmd @ NpmPlugin_promptMid @ output @ NpmPlugin_promptTail"

definition NpmPlugin_getAISuggestion :: "world \<Rightarrow> string \<Rightarrow> string \<Rightarrow> string \<times> string list" where
  "NpmPlugin_getAISuggestion w cmd output =
     askAI w (NpmPlugin_buildAIPrompt cmd output)
       ''npm --help # Check the correct NPM command syntax''"

definition NpmPlugin_Suggest :: "world \<Rightarrow> string \<Rightarrow> string \<Rightarrow> string \<times> string list" where
  "NpmPlugin_Suggest w cmd output =
     (let quickFix = NpmPlugin_getQuickFix cmd output
      in if quickFix \<noteq> [] then (quickFix, []) else NpmPlugin_getAISuggestion w cmd output)"

definition NpmPlugin :: Plugin where
  "NpmPlugin = \<lparr>Name = ''npm'', Match = NpmPlugin_Match, Suggest = NpmPlugin_Suggest\<rparr>"

subsection \<open>git\<close>

definition GitPlugin_errorPatterns :: "string list" where
  "GitPlugin_errorPatterns =
     [''git: command not found'', ''is not a git command'', ''unknown option'',
      ''invalid command'', ''not a git repository'', ''pathspec'', ''did not match any file'',
      ''fatal:'', ''error:'']"

definition GitPlugin_commandCorrections :: "(string \<times> string) list" where
  "GitPlugin_commandCorrections =
     [(''checout'', ''checkout''), (''checkuot'', ''checkout''), (''chekout'', ''checkout''),
      (''committ'', ''commit''), (''comit'', ''commit''), (''stauts'', ''status''),
      (''stats'', ''status''), (''stat'', ''status''), (''brach'', ''branch''),
      (''branc'', ''branch''), (''branh'', ''branch''), (''pul'', ''pull''),
      (''pus'', ''push''), (''pussh'', ''push''), (''fetch'', ''fetch''),
      (''merg'', ''merge''), (''merge'', ''merge''), (''rebase'', ''rebase''),
      (''rebas'', ''rebase''), (''clon'', ''clone''), (''cloen'', ''clone''),
      (''ad'', ''add''), (''remot'', ''remote''), (''reste'', ''reset''),
      (''resett'', ''reset''), (''dif'', ''diff''), (''lo'', ''log''), (''sho'', ''show''),
      (''tag'', ''tag''), (''stash'', ''stash''), (''stas'', ''stash'')]"

definition GitPlugin_Match :: "string \<Rightarrow> string \<Rightarrow> bool" where
  "GitPlugin_Match cmd output =
     (if \<not> HasPrefix cmd ''git '' then False
      else containsAny output GitPlugin_errorPatterns)"

fun GitPlugin_checkoutLoop :: "string list \<Rightarrow> string" where
  "GitPlugin_checkoutLoop (part # branchName # rest) =
     (if part = ''checkout'' then ''git checkout -b '' @ branchName
      else GitPlugin_checkoutLoop (branchName # rest))"
| "GitPlugin_checkoutLoop parts = []"

text \<open>The git plugin never calls the generative client.\<close>

definition GitPlugin_Suggest :: "world \<Rightarrow> string \<Rightarrow> string \<Rightarrow> string \<times> string list" where
  "GitPlugin_Suggest w cmd output =
     (let parts = Fields cmd
      in if length parts < 2 then ([], [])
         else
           (let gitCommand = parts ! 1
            in case map_of GitPlugin_commandCorrections gitCommand of
                 Some correction \<Rightarrow>
                   (Replace1 cmd (''git '' @ gitCommand) (''git '' @ correction), [])
               | None \<Rightarrow>
                   if Contains output ''not a git repository'' then (''git init'', [])
                   else if Contains output ''pathspec'' \<and> Contains output ''did not match'' then
                     (''git branch -a'', [])
                   else if Contains cmd ''checkout'' \<and> Contains output ''pathspec'' then
                     (GitPlugin_checkoutLoop parts, [])
                   else ([], [])))"

definition GitPlugin :: Plugin where
  "GitPlugin = \<lparr>Name = ''git'', Match = GitPlugin_Match, Suggest = GitPlugin_Suggest\<rparr>"

subsection \<open>docker\<close>

definition DockerPlugin_dockerErrors :: "string list" where
  "DockerPlugin_dockerErrors =
     [''unable to find image'', ''is not a docker command'',
      ''permission denied while trying to connect to the docker daemon'',
      ''cannot connect to the docker daemon'', ''docker daemon not running'',
      ''no such container'', ''no such image'', ''error response from daemon'',
      ''pull access denied'', ''repository does not exist'', ''unauthorized'',
      ''manifest unknown'', ''tag does not exist'']"

definition DockerPlugin_corrections :: "(string \<times> string) list" where
  "DockerPlugin_corrections =
     [(''ru'', ''run''), (''rn'', ''run''), (''buil'', ''build''), (''buid'', ''build''),
      (''pul'', ''pull''), (''pll'', ''pull''), (''pus'', ''push''), (''psh'', ''push''),
      (''exe'', ''exec''), (''exec'', ''exec''), (''p'', ''ps''), (''log'', ''logs''),
      (''stp'', ''stop''), (''stop'', ''stop''), (''stat'', ''start''), (''strt'', ''start''),
      (''rm'', ''rm''), (''rmi'', ''rmi''), (''img'', ''images''), (''image'', ''images''),
      (''net'', ''network''), (''vol'', ''volume''), (''cp'', ''cp''), (''insp'', ''inspect''),
      (''inspt'', ''inspect'')]"

definition DockerPlugin_imageCorrections :: "(string \<times> string) list" where
  "DockerPlugin_imageCorrections =
     [(''ubntu'', ''ubuntu''), (''ubunt'', ''ubuntu''), (''ubunut'', ''ubuntu''),
      (''ngnix'', ''nginx''), (''ngin'', ''nginx''), (''nginc'', ''nginx''),
      (''alpin'', ''alpine''), (''alpne'', ''alpine''), (''redi'', ''redis''),
      (''redis'', ''redis''), (''rediss'', ''redis''), (''postgre'', ''postgres''),
      (''postgrs'', ''postgres''), (''postgresql'', ''postgres''), (''mysq'', ''mysql''),
      (''mysl'', ''mysql''), (''mysql'', ''mysql''), (''mong'', ''mongo''),
      (''mongo'', ''mongo''), (''mongod'', ''mongo''), (''node'', ''node''),
      (''nodejs'', ''node''), (''pythn'', ''python''), (''pythno'', ''python''),
      (''pyhton'', ''python''), (''centso'', ''centos''), (''cenot'', ''centos''),
      (''deban'', ''debian''), (''debain'', ''debian''), (''fedra'', ''fedora''),
      (''fedro'', ''fedora''), (''archlinx'', ''archlinux''), (''arch'', ''archlinux'')]"

definition DockerPlugin_promptHead :: string where
  \<open>DockerPlugin_promptHead =
       ''\<newline>''
     @ ''You are an expert Docker administrator and DevOps engineer.\<newline>''
     @ ''\<newline>''
     @ ''CONTEXT:\<newline>''
     @ ''- User executed command: ''\<close>

definition DockerPlugin_promptMid :: string where
  \<open>DockerPlugin_promptMid =
       ''\<newline>''
     @ ''- Command output/error: ''\<close>

definition DockerPlugin_promptTail :: string where
  \<open>DockerPlugin_promptTail =
       ''\<newline>''
     @ ''- System: Linux with Docker installed\<newline>''
     @ ''- Goal: Provide the EXACT corrected command to fix the issue\<newline>''
     @ ''\<newline>''
     @ ''TASK:\<newline>''
     @ ''Analyze the command and error, then provide a single, executable command that will resolve the issue.\<newline>''
     @ ''\<newline>''
     @ ''RULES:\<newline>''
     @ ''1. Return ONLY the corrected command, no explanations\<newline>''
     @ ''2. Use proper Docker syntax and image names\<newline>''
     @ ''3. Include sudo if needed for permissions\<newline>''
     @ ''4. Handle common issues: typos, missing images, daemon not running, permission errors\<newline>''
     @ ''5. If image doesn't exist, suggest the closest alternative\<newline>''
     @ ''6. For service issues, suggest the complete fix including service management\<newline>''
     @ ''7. Always prioritize safety and standard practices\<newline>''
     @ ''\<newline>''
     @ ''COMMON DOCKER PATTERNS TO CONSIDER:\<newline>''
     @ ''- Image name typos (ubntu '' @ [CHR 0xE2, CHR 0x86, CHR 0x92] @ '' ubuntu, ngnix '' @ [CHR 0xE2, CHR 0x86, CHR 0x92] @ '' nginx)\<newline>''
     @ ''- Command typos (ru '' @ [CHR 0xE2, CHR 0x86, CHR 0x92] @ '' run, pul '' @ [CHR 0xE2, CHR 0x86, CHR 0x92] @ '' pull, pus '' @ [CHR 0xE2, CHR 0x86, CHR 0x92] @ '' push)\<newline>''
     @ ''- Missing sudo for daemon access\<newline>''
     @ ''- Docker daemon not running (need to start service)\<newline>''
     @ ''- Image tag issues\<newline>''
     @ ''- Port binding problems\<newline>''
     @ ''- Volume mount issues\<newline>''
     @ ''\<newline>''
     @ ''EXAMPLES:\<newline>''
     @ ''- Input: "docker ru ubuntu" + "docker: 'ru' is not a docker command"\<newline>''
     @ ''- Output: "docker run ubuntu"\<newline>''
     @ ''\<newline>''
     @ ''- Input: "docker run ubuntu" + "permission denied while trying to connect"\<newline>''
     @ ''- Output: "sudo docker run ubuntu"\<newline>''
     @ ''\<newline>''
     @ ''- Input: "docker run ubntu" + "Unable to find image 'ubntu:latest'"\<newline>''
     @ ''- Output: "docker run ubuntu"\<newline>''
     @ ''\<newline>''
     @ ''Provide the corrected command:''\<close>

definition DockerPlugin_Match :: "string \<Rightarrow> string \<Rightarrow> bool" where
  "DockerPlugin_Match cmd output =
     (if \<not> Contains (ToLower cmd) ''docker'' then False
      else containsAny output DockerPlugin_dockerErrors)"

definition DockerPlugin_correctDockerCommand :: "string \<Rightarrow> string" where
  "DockerPlugin_correctDockerCommand cmd =
     (let parts = Fields cmd
      in if length parts \<ge> 2 then
           (case map_of DockerPlugin_corrections (parts ! 1) of
              Some correction \<Rightarrow> Join (parts[1 := correction]) '' ''
            | None \<Rightarrow> cmd)
         else cmd)"

text \<open>
  \<open>correctImageName\<close> ranges over the map \<open>imageCorrections\<close>; the entries come in the
  order of the runtime: sorted by the rank of their keys, entries of equal rank as they are
  written.  Every permutation of the entries is the order of some ranks.
\<close>

fun DockerPlugin_imageLoop :: "(string \<times> string) list \<Rightarrow> string \<Rightarrow> string \<Rightarrow> string" where
  "DockerPlugin_imageLoop [] cmd output = cmd"
| "DockerPlugin_imageLoop ((typo, correct) # rest) cmd output =
     (if Contains (ToLower output) typo then Replace1 cmd typo correct
      else DockerPlugin_imageLoop rest cmd output)"

definition DockerPlugin_correctImageName :: "world \<Rightarrow> string \<Rightarrow> string \<Rightarrow> string" where
  "DockerPlugin_correctImageName w cmd output =
     DockerPlugin_imageLoop
       (sort_key (\<lambda>(typo, correct). imageRank w typo) DockerPlugin_imageCorrections)
       cmd output"

definition DockerPlugin_getQuickFix :: "world \<Rightarrow> string \<Rightarrow> string \<Rightarrow> string" where
  "DockerPlugin_getQuickFix w cmd output =
     (let outputLower = ToLower output
      in if Contains outputLower ''permission denied'' \<and> \<not> Contains cmd ''sudo'' then
           ''sudo '' @ cmd
         else if Contains outputLower ''cannot connect to the docker daemon'' then
           ''sudo systemctl start docker && '' @ cmd
         else if Contains outputLower ''is not a docker command'' then
           DockerPlugin_correctDockerCommand cmd
         else if Contains outputLower ''unable to find image'' then
           DockerPlugin_correctImageName w cmd output
         else [])"

definition DockerPlugin_buildAIPrompt :: "string \<Rightarrow> string \<Rightarrow> string" where
  "DockerPlugin_buildAIPrompt cmd output =
     DockerPlugin_promptHead @ cmd @ DockerPlugin_promptMid @ output @ DockerPlugin_promptTail"

definition DockerPlugin_getAISuggestion ::
  "world \<Rightarrow> string \<Rightarrow> string \<Rightarrow> string \<times> string list" where
  "DockerPlugin_getAISuggestion w cmd output =
     askAI w (DockerPlugin_buildAIPrompt cmd output)
       ''docker --help # Check the correct Docker command syntax''"

definition DockerPlugin_Suggest :: "world \<Rightarrow> string \<Rightarrow> string \<Rightarrow> string \<times> string list" where
  "DockerPlugin_Suggest w cmd output =
     (let quickFix = DockerPlugin_getQuickFix w cmd output
      in if quickFix \<noteq> [] then (quickFix, []) else DockerPlugin_getAISuggestion w cmd output)"

definition DockerPlugin :: Plugin where
  "DockerPlugin =
     \<lparr>Name = ''docker'', Match = DockerPlugin_Match, Suggest = DockerPlugin_Suggest\<rparr>"

subsection \<open>pip\<close>

definition PipPlugin_pipErrors :: "string list" where
  "PipPlugin_pipErrors =
     [''no such option:'', ''unknown command'', ''could not find a version'',
      ''no matching distribution found'', ''permission denied'',
      ''externally-managed-environment'', ''pip: command not found'',
      ''error: could not install packages'', ''certificate verify failed'',
      ''connection error'', ''timeout'', ''requirement already satisfied'',
      ''syntax error in requirements'', ''invalid requirement'',
      ''pip is being invoked by an old script'']"

definition PipPlugin_packageCorrections :: "(string \<times> string) list" where
  "PipPlugin_packageCorrections =
     [(''beautifulsoup'', ''beautifulsoup4''), (''bs4'', ''beautifulsoup4''),
      (''beautiful-soup'', ''beautifulsoup4''), (''request'', ''requests''),
      (''requets'', ''requests''), (''reqeusts'', ''requests''), (''numpy'', ''numpy''),
      (''numpi'', ''numpy''), (''numpyy'', ''numpy''), (''pandas'', ''pandas''),
      (''panda'', ''pandas''), (''pandass'', ''pandas''), (''matplotlib'', ''matplotlib''),
      (''matplot'', ''matplotlib''), (''matplotlb'', ''matplotlib''), (''scipy'', ''scipy''),
      (''scipi'', ''scipy''), (''scypy'', ''scipy''), (''scikit-learn'', ''scikit-learn''),
      (''sklearn'', ''scikit-learn''), (''scikit'', ''scikit-learn''),
      (''tensorflow'', ''tensorflow''), (''tensorflw'', ''tensorflow''),
      (''tensoflow'', ''tensorflow''), (''torch'', ''torch''), (''pytorch'', ''torch''),
      (''pyyaml'', ''pyyaml''), (''yaml'', ''pyyaml''), (''yml'', ''pyyaml''),
      (''flask'', ''flask''), (''flsk'', ''flask''), (''flaskk'', ''flask''),
      (''django'', ''django''), (''djnago'', ''django''), (''djangoo'', ''django''),
      (''fastapi'', ''fastapi''), (''fastap'', ''fastapi''), (''fast-api'', ''fastapi''),
      (''sqlalchemy'', ''sqlalchemy''), (''sqlalchmy'', ''sqlalchemy''),
      (''sql-alchemy'', ''sqlalchemy''), (''pillow'', ''pillow''), (''pil'', ''pillow''),
      (''pillw'', ''pillow''), (''opencv-python'', ''opencv-python''),
      (''opencv'', ''opencv-python''), (''cv2'', ''opencv-python''),
      (''jupyter'', ''jupyter''), (''jupytr'', ''jupyter''), (''jupyterr'', ''jupyter''),
      (''ipython'', ''ipython''), (''ipythoon'', ''ipython''), (''py-python'', ''ipython''),
      (''pytz'', ''pytz''), (''pyttz'', ''pytz''), (''timezone'', ''pytz''),
      (''dateutil'', ''python-dateutil''), (''python-dateutil'', ''python-dateutil''),
      (''date-util'', ''python-dateutil''), (''click'', ''click''), (''clik'', ''click''),
      (''clickk'', ''click''), (''setuptools'', ''setuptools''),
      (''setup-tools'', ''setuptools''), (''setuptool'', ''setuptools''),
      (''wheel'', ''wheel''), (''whel'', ''wheel''), (''wheell'', ''wheel''),
      (''virtualenv'', ''virtualenv''), (''virtual-env'', ''virtualenv''),
      (''venv'', ''virtualenv''), (''pipenv'', ''pipenv''), (''pip-env'', ''pipenv''),
      (''pipenev'', ''pipenv'')]"

definition PipPlugin_promptHead :: string where
  \<open>PipPlugin_promptHead =
       ''\<newline>''
     @ ''You are an expert Python developer and package management specialist.\<newline>''
     @ ''\<newline>''
     @ ''CONTEXT:\<newline>''
     @ ''- User executed command: ''\<close>

definition PipPlugin_promptMid :: string where
  \<open>PipPlugin_promptMid =
       ''\<newline>''
     @ ''- Command output/error: ''\<close>

definition PipPlugin_promptTail :: string where
  \<open>PipPlugin_promptTail =
       ''\<newline>''
     @ ''- System: Linux with Python and pip package manager\<newline>''
     @ ''- Goal: Provide the EXACT corrected command to fix the issue\<newline>''
     @ ''\<newline>''
     @ ''TASK:\<newline>''
     @ ''Analyze the command and error, then provide a single, executable command that will resolve the issue.\<newline>''
     @ ''\<newline>''
     @ ''RULES:\<newline>''
     @ ''1. Return ONLY the corrected command, no explanations\<newline>''
     @ ''2. Use proper pip/pip3 syntax and package names\<newline>''
     @ ''3. Handle common issues: typos, missing packages, permission errors, version conflicts\<newline>''
     @ ''4. If package doesn't exist, suggest the closest alternative\<newline>''
     @ ''5. For permission issues, suggest --user flag or virtual environment\<newline>''
     @ ''6. For system management issues, provide appropriate workarounds\<newline>''
     @ ''7. Always prioritize safety and best practices\<newline>''
     @ ''\<newline>''
     @ ''COMMON PIP PATTERNS TO CONSIDER:\<newline>''
     @ ''- pip vs pip3 usage (prefer pip3 for Python 3)\<newline>''
     @ ''- Package name typos (request '' @ [CHR 0xE2, CHR 0x86, CHR 0x92] @ '' requests, beautifulsoup '' @ [CHR 0xE2, CHR 0x86, CHR 0x92] @ '' beautifulsoup4)\<newline>''
     @ ''- Permission issues (use --user flag)\<newline>''
     @ ''- Externally managed environments (Ubuntu 23.04+)\<newline>''
     @ ''- Virtual environment recommendations\<newline>''
     @ ''- Version specification syntax\<newline>''
     @ ''- Requirements file issues\<newline>''
     @ ''\<newline>''
     @ ''EXAMPLES:\<newline>''
     @ ''- Input: "pip install request" + "Could not find a version that satisfies the requirement request"\<newline>''
     @ ''- Output: "pip3 install requests"\<newline>''
     @ ''\<newline>''
     @ ''- Input: "pip install numpy" + "Permission denied"\<newline>''
     @ ''- Output: "pip3 install numpy --user"\<newline>''
     @ ''\<newline>''
     @ ''- Input: "pip install flask" + "externally-managed-environment"\<newline>''
     @ ''- Output: "python3 -m venv myenv && source myenv/bin/activate && pip install flask"\<newline>''
     @ ''\<newline>''
     @ ''Provide the corrected command:''\<close>

definition PipPlugin_Match :: "string \<Rightarrow> string \<Rightarrow> bool" where
  "PipPlugin_Match cmd output =
     (if \<not> Contains (ToLower cmd) ''pip'' then False
      else containsAny output PipPlugin_pipErrors)"

definition PipPlugin_cleanPackage :: "string \<Rightarrow> string" where
  "PipPlugin_cleanPackage packageName =
     (let cleanPackage = hd (Split packageName ''=='');
          cleanPackage = hd (Split cleanPackage ''>='');
          cleanPackage = hd (Split cleanPackage ''<='');
          cleanPackage = hd (Split cleanPackage ''>'');
          cleanPackage = hd (Split cleanPackage ''<'');
          cleanPackage = hd (Split cleanPackage ''!='')
      in cleanPackage)"

fun PipPlugin_packageLoop :: "string \<Rightarrow> string list \<Rightarrow> string list \<Rightarrow> string" where
  "PipPlugin_packageLoop cmd passed (part # packageName # rest) =
     (if part = ''install'' then
        (let cleanPackage = PipPlugin_cleanPackage packageName
         in case map_of PipPlugin_packageCorrections cleanPackage of
              Some correction \<Rightarrow>
                Join (passed @ part # Replace1 packageName cleanPackage correction # rest) '' ''
            | None \<Rightarrow> PipPlugin_packageLoop cmd (passed @ [part]) (packageName # rest))
      else PipPlugin_packageLoop cmd (passed @ [part]) (packageName # rest))"
| "PipPlugin_packageLoop cmd passed parts = cmd"

definition PipPlugin_correctPackageName :: "string \<Rightarrow> string" where
  "PipPlugin_correctPackageName cmd = PipPlugin_packageLoop cmd [] (Fields cmd)"

definition PipPlugin_getQuickFix :: "string \<Rightarrow> string \<Rightarrow> string" where
  "PipPlugin_getQuickFix cmd output =
     (let outputLower = ToLower output
      in if Contains outputLower ''pip: command not found'' then
           ''sudo apt install python3-pip && '' @ Replace1 cmd ''pip'' ''pip3''
         else if Contains outputLower ''permission denied''
                 \<and> \<not> Contains cmd ''--user'' \<and> \<not> Contains cmd ''sudo'' then
           cmd @ '' --user''
         else if Contains outputLower ''externally-managed-environment'' then
           cmd @ '' --break-system-packages # or use: python3 -m venv myenv && source myenv/bin/activate && ''
           @ cmd
         else if Contains outputLower ''could not find a version''
                 \<or> Contains outputLower ''no matching distribution'' then
           PipPlugin_correctPackageName cmd
         else if Contains cmd ''pip '' \<and> \<not> Contains cmd ''pip3'' then
           Replace1 cmd ''pip '' ''pip3 ''
         else [])"

definition PipPlugin_buildAIPrompt :: "string \<Rightarrow> string \<Rightarrow> string" where
  "PipPlugin_buildAIPrompt cmd output =
     PipPlugin_promptHead @ cmd @ PipPlugin_promptMid @ output @ PipPlugin_promptTail"

definition PipPlugin_getAISuggestion :: "world \<Rightarrow> string \<Rightarrow> string \<Rightarrow> string \<times> string list" where
  "PipPlugin_getAISuggestion w cmd output =
     askAI w (PipPlugin_buildAIPrompt cmd output)
       ''pip3 --help # Check the correct pip command syntax''"

definition PipPlugin_Suggest :: "world \<Rightarrow> string \<Rightarrow> string \<Rightarrow> string \<times> string list" where
  "PipPlugin_Suggest w cmd output =
     (let quickFix = PipPlugin_getQuickFix cmd output
      in if quickFix \<noteq> [] then (quickFix, []) else PipPlugin_getAISuggestion w cmd output)"

definition PipPlugin :: Plugin where
  "PipPlugin = \<lparr>Name = ''pip'', Match = PipPlugin_Match, Suggest = PipPlugin_Suggest\<rparr>"

subsection \<open>systemctl\<close>

definition SystemctlPlugin_systemctlErrors :: "string list" where
  "SystemctlPlugin_systemctlErrors =
     [''unit not found'', ''failed to start'', ''failed to stop'', ''failed to restart'',
      ''failed to reload'', ''permission denied'', ''authentication required'',
      ''could not find'', ''unknown operation'', ''invalid option'', ''unit file not found'',
      ''masked unit'', ''inactive unit'', ''job failed'']"

definition SystemctlPlugin_serviceCorrections :: "(string \<times> string) list" where
  "SystemctlPlugin_serviceCorrections =
     [(''apache'', ''apache2''), (''httpd'', ''apache2''), (''nginx'', ''nginx''),
      (''ngnix'', ''nginx''), (''docker'', ''docker''), (''dockerd'', ''docker''),
      (''mysql'', ''mysql''), (''mariadb'', ''mariadb''), (''postgresql'', ''postgresql''),
      (''postgres'', ''postgresql''), (''redis'', ''redis-server''),
      (''redis-srv'', ''redis-server''), (''ssh'', ''ssh''), (''sshd'', ''ssh''),
      (''openssh'', ''ssh''), (''network'', ''networking''), (''net'', ''networking''),
      (''firewall'', ''ufw''), (''iptables'', ''iptables''), (''cron'', ''cron''),
      (''crond'', ''cron''), (''systemd'', ''systemd''), (''dbus'', ''dbus''),
      (''avahi'', ''avahi-daemon''), (''bluetooth'', ''bluetooth''), (''cups'', ''cups''),
      (''printer'', ''cups'')]"

definition SystemctlPlugin_promptHead :: string where
  \<open>SystemctlPlugin_promptHead =
       ''\<newline>''
     @ ''You are an expert Linux system administrator specializing in systemd service management.\<newline>''
     @ ''\<newline>''
     @ ''CONTEXT:\<newline>''
     @ ''- User executed command: ''\<close>

definition SystemctlPlugin_promptMid :: string where
  \<open>SystemctlPlugin_promptMid =
       ''\<newline>''
     @ ''- Command output/error: ''\<close>

definition SystemctlPlugin_promptTail :: string where
  \<open>SystemctlPlugin_promptTail =
       ''\<newline>''
     @ ''- System: Linux with systemd service manager\<newline>''
     @ ''- Goal: Provide the EXACT corrected command to fix the issue\<newline>''
     @ ''\<newline>''
     @ ''TASK:\<newline>''
     @ ''Analyze the command and error, then provide a single, executable command that will resolve the issue.\<newline>''
     @ ''\<newline>''
     @ ''RULES:\<newline>''
     @ ''1. Return ONLY the corrected command, no explanations\<newline>''
     @ ''2. Use proper systemctl syntax and service names\<newline>''
     @ ''3. Include sudo if needed for permissions\<newline>''
     @ ''4. Handle common issues: typos, missing services, permission errors, masked units\<newline>''
     @ ''5. If service doesn't exist, suggest the closest alternative\<newline>''
     @ ''6. For masked units, provide unmask command first\<newline>''
     @ ''7. Always prioritize safety and standard practices\<newline>''
     @ ''\<newline>''
     @ ''COMMON SYSTEMCTL PATTERNS TO CONSIDER:\<newline>''
     @ ''- Service name corrections (apache '' @ [CHR 0xE2, CHR 0x86, CHR 0x92] @ '' apache2, mysql '' @ [CHR 0xE2, CHR 0x86, CHR 0x92] @ '' mysql)\<newline>''
     @ ''- Missing .service suffix\<newline>''
     @ ''- Permission issues requiring sudo\<newline>''
     @ ''- Masked units needing to be unmasked\<newline>''
     @ ''- Service not found vs service not enabled\<newline>''
     @ ''- Start/stop/restart/reload commands\<newline>''
     @ ''- Enable/disable for boot time behavior\<newline>''
     @ ''\<newline>''
     @ ''EXAMPLES:\<newline>''
     @ ''- Input: "systemctl start apache" + "Unit apache.service not found"\<newline>''
     @ ''- Output: "sudo systemctl start apache2.service"\<newline>''
     @ ''\<newline>''
     @ ''- Input: "systemctl restart nginx" + "Permission denied"\<newline>''
     @ ''- Output: "sudo systemctl restart nginx"\<newline>''
     @ ''\<newline>''
     @ ''- Input: "systemctl start docker" + "Unit is masked"\<newline>''
     @ ''- Output: "sudo systemctl unmask docker && sudo systemctl start docker"\<newline>''
     @ ''\<newline>''
     @ ''Provide the corrected command:''\<close>

definition SystemctlPlugin_Match :: "string \<Rightarrow> string \<Rightarrow> bool" where
  "SystemctlPlugin_Match cmd output =
     (if \<not> Contains (ToLower cmd) ''systemctl'' then False
      else containsAny output SystemctlPlugin_systemctlErrors)"

definition SystemctlPlugin_correctServiceName :: "string \<Rightarrow> string" where
  "SystemctlPlugin_correctServiceName cmd =
     (let parts = Fields cmd
      in if length parts \<ge> 3 then
           (let serviceName = parts ! 2;
                cleanService = TrimSuffix serviceName ''.service''
            in case map_of SystemctlPlugin_serviceCorrections cleanService of
                 Some correction \<Rightarrow> Join (parts[2 := correction @ ''.service'']) '' ''
               | None \<Rightarrow>
                   if \<not> HasSuffix serviceName ''.service'' then
                     Join (parts[2 := cleanService @ ''.service'']) '' ''
                   else cmd)
         else cmd)"

definition SystemctlPlugin_getQuickFix :: "string \<Rightarrow> string \<Rightarrow> string" where
  "SystemctlPlugin_getQuickFix cmd output =
     (let outputLower = ToLower output
      in if (Contains outputLower ''permission denied''
             \<or> Contains outputLower ''authentication required'')
            \<and> \<not> Contains cmd ''sudo'' then
           ''sudo '' @ cmd
         else if Contains outputLower ''unit not found'' \<or> Contains outputLower ''could not find''
         then SystemctlPlugin_correctServiceName cmd
         else if Contains outputLower ''masked unit'' \<and> length (Fields cmd) \<ge> 3 then
           ''sudo systemctl unmask '' @ Fields cmd ! 2 @ '' && '' @ cmd
         else [])"

definition SystemctlPlugin_buildAIPrompt :: "string \<Rightarrow> string \<Rightarrow> string" where
  "SystemctlPlugin_buildAIPrompt cmd output =
     SystemctlPlugin_promptHead @ cmd @ SystemctlPlugin_promptMid @ output
     @ SystemctlPlugin_promptTail"

definition SystemctlPlugin_getAISuggestion ::
  "world \<Rightarrow> string \<Rightarrow> string \<Rightarrow> string \<times> string list" where
  "SystemctlPlugin_getAISuggestion w cmd output =
     askAI w (SystemctlPlugin_buildAIPrompt cmd output)
       ''systemctl --help # Check the correct systemctl command syntax''"

definition SystemctlPlugin_Suggest :: "world \<Rightarrow> string \<Rightarrow> string \<Rightarrow> string \<times> string list" where
  "SystemctlPlugin_Suggest w cmd output =
     (let quickFix = SystemctlPlugin_getQuickFix cmd output
      in if quickFix \<noteq> [] then (quickFix, []) else SystemctlPlugin_getAISuggestion w cmd output)"

definition SystemctlPlugin :: Plugin where
  "SystemctlPlugin =
     \<lparr>Name = ''systemctl'', Match = SystemctlPlugin_Match, Suggest = SystemctlPlugin_Suggest\<rparr>"

section \<open>The registry\<close>

text \<open>
  \<open>enabledMap\<close> is a Go \<open>map[string]bool\<close>: a name that was never stored reads as
  \<open>false\<close>.
\<close>

definition LoadAllPlugins :: "world \<Rightarrow> Plugin list" where
  "LoadAllPlugins w =
     (case AppConfig w of
        None \<Rightarrow> []
      | Some c \<Rightarrow>
          (let enabledPlugins = Split (EnablePlugins c) '','';
               enabledMap = fold (\<lambda>plugin m. m(TrimSpace plugin := True)) enabledPlugins
                              (\<lambda>name. False)
           in (if enabledMap ''apt'' then [AptPlugin] else [])
              @ (if enabledMap ''npm'' then [NpmPlugin] else [])
              @ (if enabledMap ''git'' then [GitPlugin] else [])
              @ (if enabledMap ''docker'' then [DockerPlugin] else [])
              @ (if enabledMap ''pip'' then [PipPlugin] else [])
              @ (if enabledMap ''systemctl'' then [SystemctlPlugin] else [])))"

definition New :: "world \<Rightarrow> Engine" where
  "New w = \<lparr>plugins = LoadAllPlugins w\<rparr>"

section \<open>The execution monitor\<close>

definition errorIndicators :: "string list" where
  "errorIndicators =
     [''error:'', ''Error:'', ''ERROR:'', ''failed'', ''Failed'', ''FAILED'', ''not found'',
      ''Not found'', ''command not found'', ''is not a git command'',
      ''is not a docker command'', ''permission denied'', ''Permission denied'',
      ''E: Unable to locate package'', ''npm ERR!'', ''fatal:'', ''Fatal:'']"

definition detectError :: "string \<Rightarrow> bool" where
  "detectError output =
     (let lowerOutput = ToLower output
      in list_ex (\<lambda>indicator. Contains lowerOutput (ToLower indicator)) errorIndicators)"

definition executeSuggestion :: "world \<Rightarrow> string \<Rightarrow> bool \<times> event list" where
  "executeSuggestion w suggestion =
     (let parts = Fields suggestion
      in if length parts = 0 then (False, [])
         else (case runSuggestion w parts of
                 Some err \<Rightarrow> (False, [Exec parts])
               | None \<Rightarrow> (True, [Exec parts])))"

definition presentSuggestion ::
  "world \<Rightarrow> string \<Rightarrow> string \<Rightarrow> string \<Rightarrow> string \<Rightarrow> bool \<times> event list" where
  "presentSuggestion w command output suggestion source =
     (if (case AppConfig w of Some c \<Rightarrow> AutoConfirm c | None \<Rightarrow> False) then
        (case executeSuggestion w suggestion of
           (ok, tr) \<Rightarrow> (ok, Present suggestion source # tr))
      else
        (case stdinLine w of
           Inl err \<Rightarrow> (False, [Present suggestion source, ReadLine])
         | Inr line \<Rightarrow>
             (let input = TrimSpace (ToLower line)
              in if input = ''y'' \<or> input = ''yes'' then
                   (case executeSuggestion w suggestion of
                      (ok, tr) \<Rightarrow> (ok, Present suggestion source # ReadLine # tr))
                 else (False, [Present suggestion source, ReadLine]))))"

definition handleError :: "world \<Rightarrow> Engine \<Rightarrow> string \<Rightarrow> string \<Rightarrow> bool \<times> event list" where
  "handleError w e command output =
     (case tryPlugins w (plugins e) command output of
        (Some (suggestion, source), tr) \<Rightarrow>
          (case presentSuggestion w command output suggestion source of
             (ok, tr') \<Rightarrow> (ok, Diagnose command output # tr @ tr'))
      | (None, tr) \<Rightarrow>
          (case GetSuggestion w (enginePrompt command output) of
             Inl err \<Rightarrow>
               (False, Diagnose command output # tr @ [AICall (enginePrompt command output)])
           | Inr suggestion \<Rightarrow>
               if suggestion \<noteq> [] then
                 (case presentSuggestion w command output suggestion ''AI'' of
                    (ok, tr') \<Rightarrow>
                      (ok, Diagnose command output # tr
                           @ AICall (enginePrompt command output) # tr'))
               else
                 (False, Diagnose command output # tr
                         @ [AICall (enginePrompt command output)])))"

text \<open>
  \<open>ExecuteWithMonitoring\<close> takes the arguments of the command (\<open>cmd.Args\<close>) and returns
  the error it reports, \<open>None\<close> for \<open>nil\<close>.
\<close>

definition ExecuteWithMonitoring :: "world \<Rightarrow> string list \<Rightarrow> error option \<times> event list" where
  "ExecuteWithMonitoring w args =
     (let engine = New w;
          (err, stdout, stderr) = runMonitored w args;
          command = Join args '' ''
      in case err of
           Some e \<Rightarrow>
             (let output = (if stderr = [] then stdout else stderr)
              in if detectError output then
                   (case handleError w engine command output of
                      (handled, tr) \<Rightarrow> (if handled then None else Some e, Run args # tr))
                 else (Some e, [Run args]))
         | None \<Rightarrow>
             (let output = stdout
              in if detectError output then
                   (case handleError w engine command output of
                      (handled, tr) \<Rightarrow> (None, Run args # tr))
                 else (None, [Run args])))"

section \<open>Reference definitions and example inputs\<close>

text \<open>
  The definitions that the properties below are stated with: the reading of the
  specification where it is compared with the code, the shape of traces, and the concrete
  worlds, commands and outputs of the examples.
\<close>

subsection \<open>Example worlds\<close>

text \<open>
  A configuration without any API key: \<open>NewAIClient\<close> returns \<open>nil\<close> and every call of
  the generative client fails.  The world around it has no network, an exhausted standard
  input, one fixed result for the monitored command and one for every suggestion run.
\<close>

definition exampleConfig :: "string \<Rightarrow> bool \<Rightarrow> Config" where
  "exampleConfig names auto =
     \<lparr>EnablePlugins = names, AutoConfirm = auto, AIProvider = [], GeminiAPIKey = [],
      OpenAIAPIKey = []\<rparr>"

definition exampleWorld ::
  "string \<Rightarrow> bool \<Rightarrow> error option \<times> string \<times> string \<Rightarrow> error option \<Rightarrow> world" where
  "exampleWorld names auto result fix =
     \<lparr>AppConfig = Some (exampleConfig names auto),
      getenv = (\<lambda>name. []),
      http = (\<lambda>client prompt. Inl ''no network''),
      imageRank = (\<lambda>typo. 0),
      stdinLine = Inl ''EOF'',
      runMonitored = (\<lambda>args. result),
      runSuggestion = (\<lambda>args. fix)\<rparr>"

subsection \<open>The plugin loop\<close>

text \<open>
  What consulting one plugin leaves in the trace, when a plugin declines (it does not
  match, or it suggests nothing), and the plugins of a registry that the loop reaches:
  those that decline, up to and including the first that does not.
\<close>

definition consult :: "world \<Rightarrow> string \<Rightarrow> string \<Rightarrow> Plugin \<Rightarrow> event list" where
  "consult w command output p =
     (if Match p command output then
        [MatchCall (Name p) command output, SuggestCall (Name p) command output]
        @ map AICall (snd (Suggest p w command output))
      else [MatchCall (Name p) command output])"

definition declines :: "world \<Rightarrow> string \<Rightarrow> string \<Rightarrow> Plugin \<Rightarrow> bool" where
  "declines w command output p =
     (\<not> Match p command output \<or> fst (Suggest p w command output) = [])"

definition consulted :: "world \<Rightarrow> string \<Rightarrow> string \<Rightarrow> Plugin list \<Rightarrow> Plugin list" where
  "consulted w command output ps =
     takeWhile (declines w command output) ps
     @ take 1 (dropWhile (declines w command output) ps)"

text \<open>
  An npm command that names docker, with an output that both the npm and the docker
  plugin match: in the registry apt, npm, git, docker the apt plugin does not match, the
  npm plugin answers, and the git and docker plugins are never called.
\<close>

definition npmCommand :: string where
  "npmCommand = ''npm install expres --prefix docker''"

definition npmOutput :: string where
  "npmOutput = ''npm ERR! 404 Not Found - GET https://registry.npmjs.org/expres - unauthorized''"

definition npmWorld :: world where
  "npmWorld = exampleWorld ''apt,npm,git,docker'' False (Some ''exit status 1'', [], npmOutput) None"

subsection \<open>The return value of the monitor\<close>

text \<open>
  A command that exits with status zero and prints an npm error: the suggestion of the npm
  plugin is run under auto-confirm and fails, and the monitor still returns \<open>nil\<close>.
\<close>

definition zeroExitWorld :: world where
  "zeroExitWorld =
     exampleWorld ''apt,npm,git,docker,pip,systemctl'' True
       (None, ''npm ERR! 404 Not Found: expres'', []) (Some ''exit status 1'')"

subsection \<open>The registry is a filter of a fixed list\<close>

definition registryOrder :: "Plugin list" where
  "registryOrder = [AptPlugin, NpmPlugin, GitPlugin, DockerPlugin, PipPlugin, SystemctlPlugin]"




subsection \<open>Who consults the generative client\<close>

text \<open>The events of the plugin loop and the events of \<open>presentSuggestion\<close>.\<close>

fun pluginEvent :: "event \<Rightarrow> bool" where
  "pluginEvent (MatchCall n c out) = True"
| "pluginEvent (SuggestCall n c out) = True"
| "pluginEvent (AICall p) = True"
| "pluginEvent ev = False"

fun userEvent :: "event \<Rightarrow> bool" where
  "userEvent (Present s src) = True"
| "userEvent ReadLine = True"
| "userEvent (Exec parts) = True"
| "userEvent ev = False"

text \<open>
  A world whose client has a key and whose provider answers every prompt with the same
  text.
\<close>

definition answeringWorld :: "string \<Rightarrow> world" where
  "answeringWorld reply =
     (exampleWorld ''apt,npm,git,docker,pip,systemctl'' False (None, [], []) None)
       \<lparr>AppConfig :=
          Some ((exampleConfig ''apt,npm,git,docker,pip,systemctl'' False)
                  \<lparr>GeminiAPIKey := ''key''\<rparr>),
        http := (\<lambda>client prompt. Inr reply)\<rparr>"

text \<open>An apt command for a package that no table knows.\<close>

definition aptCommand :: string where
  "aptCommand = ''apt install foo''"

definition aptOutput :: string where
  "aptOutput = ''E: Unable to locate package foo''"

definition aptWorld :: world where
  "aptWorld = exampleWorld ''apt'' False (Some ''exit status 100'', [], aptOutput) None"

subsection \<open>What a plugin suggests when no quick fix applies\<close>

text \<open>A reply of the provider that wraps its command in a code fence.\<close>

definition fencedReply :: string where
  "fencedReply = ''```\<newline>sudo apt install foo-tools\<newline>```''"

subsection \<open>When the monitor starts a diagnosis\<close>

text \<open>
  Three runs: a command that crashes and prints no error indicator, a command that succeeds
  and warns on standard error only, and a command that succeeds and prints an indicator on
  both streams.  In the last two no plugin is enabled.
\<close>

definition crashWorld :: world where
  "crashWorld =
     exampleWorld ''apt,npm,git,docker,pip,systemctl'' True
       (Some ''signal: segmentation fault'', [], ''Segmentation fault (core dumped)'') None"

definition warningWorld :: world where
  "warningWorld =
     exampleWorld [] True (None, ''done'', ''make: warning: permission denied'') None"

definition bothStreamsWorld :: world where
  "bothStreamsWorld =
     exampleWorld [] True (None, ''error: a'', ''fatal: b'') None"

subsection \<open>Facts about the strings package\<close>

text \<open>
  A string has a token when one of its bytes is not white space; a token is a string that
  is not empty and holds no white space.
\<close>

definition hasToken :: "string \<Rightarrow> bool" where
  "hasToken s = list_ex (\<lambda>c. \<not> isSpace c) s"


subsection \<open>The verb-typo rule of npm and docker\<close>




subsection \<open>Correcting a corrected command\<close>


subsection \<open>Running a confirmed suggestion\<close>






section \<open>The plugin loop\<close>

lemma tryPlugins_first:
  "\<forall>q\<in>set pre. \<not> Match q c out \<or> fst (Suggest q w c out) = [] \<Longrightarrow>
   Match p c out \<Longrightarrow> fst (Suggest p w c out) \<noteq> [] \<Longrightarrow>
   tryPlugins w (pre @ p # post) c out =
     (Some (fst (Suggest p w c out), Name p),
      concat (map (consult w c out) pre) @ consult w c out p)"
  by (induction pre) (auto simp: consult_def split: prod.splits)

lemma tryPlugins_None_iff:
  "(fst (tryPlugins w ps c out) = None) =
   (\<forall>q\<in>set ps. \<not> Match q c out \<or> fst (Suggest q w c out) = [])"
  by (induction ps) (auto simp: Let_def split: prod.splits)

lemma tryPlugins_trace:
  "snd (tryPlugins w ps c out) = concat (map (consult w c out) (consulted w c out ps))"
  by (induction ps)
     (auto simp: Let_def consulted_def consult_def declines_def split: prod.splits)

text \<open>
  C3.  For every registry and every pair of command and output, both \<open>ProcessError\<close> and
  \<open>handleError\<close> take the suggestion of the first plugin, in the order of the registry,
  that matches and suggests something.  The trace holds the calls to the plugins before
  it and to it, and nothing of the plugins after it: once a suggestion is there, no later
  plugin is consulted, whether it would match or not.
\<close>

theorem first_suggestion_wins:
  assumes "\<forall>q\<in>set pre. \<not> Match q command output \<or> fst (Suggest q w command output) = []"
    and "Match p command output"
    and "fst (Suggest p w command output) \<noteq> []"
  shows "ProcessError w \<lparr>plugins = pre @ p # post\<rparr> command output =
           (Inr (fst (Suggest p w command output)),
            concat (map (consult w command output) pre) @ consult w command output p)
       \<and> handleError w \<lparr>plugins = pre @ p # post\<rparr> command output =
           (fst (presentSuggestion w command output (fst (Suggest p w command output)) (Name p)),
            Diagnose command output
            # concat (map (consult w command output) pre) @ consult w command output p
            @ snd (presentSuggestion w command output (fst (Suggest p w command output))
                     (Name p)))"
  using tryPlugins_first [OF assms]
  by (simp add: ProcessError_def handleError_def split: prod.splits)

lemma npm_example_apt: "AptPlugin_Match npmCommand npmOutput = False"
  by code_simp

lemma npm_example_npm: "NpmPlugin_Match npmCommand npmOutput = True"
  by code_simp

lemma npm_example_docker: "DockerPlugin_Match npmCommand npmOutput = True"
  by code_simp

lemma npm_example_suggest:
  "NpmPlugin_Suggest npmWorld npmCommand npmOutput = (''npm install express --prefix docker'', [])"
  by code_simp

theorem first_suggestion_wins_witness:
  "\<not> Match AptPlugin npmCommand npmOutput
   \<and> Match NpmPlugin npmCommand npmOutput
   \<and> fst (Suggest NpmPlugin npmWorld npmCommand npmOutput) \<noteq> []
   \<and> Match DockerPlugin npmCommand npmOutput
   \<and> ProcessError npmWorld \<lparr>plugins = [AptPlugin, NpmPlugin, GitPlugin, DockerPlugin]\<rparr>
        npmCommand npmOutput =
       (Inr ''npm install express --prefix docker'',
        [MatchCall ''apt'' npmCommand npmOutput, MatchCall ''npm'' npmCommand npmOutput,
         SuggestCall ''npm'' npmCommand npmOutput])"
  using first_suggestion_wins [of "[AptPlugin]" npmCommand npmOutput npmWorld NpmPlugin
          "[GitPlugin, DockerPlugin]"]
  by (simp add: AptPlugin_def NpmPlugin_def DockerPlugin_def consult_def npm_example_apt
        npm_example_npm npm_example_docker npm_example_suggest)

section \<open>The return value of the monitor\<close>

text \<open>
  C10.  If the monitored command exits with status zero, \<open>ExecuteWithMonitoring\<close> returns
  \<open>nil\<close>, whatever its output is and whatever the diagnosis of that output does: no
  suggestion, a suggestion that is turned down, or a suggestion whose run fails.
\<close>

theorem succeeded_command_returns_nil:
  "fst (runMonitored w args) = None \<Longrightarrow> fst (ExecuteWithMonitoring w args) = None"
  by (auto simp: ExecuteWithMonitoring_def Let_def split: prod.splits)

lemma zero_exit_run:
  "ExecuteWithMonitoring zeroExitWorld [''npm'', ''install'', ''expres''] =
     (None,
      [Run [''npm'', ''install'', ''expres''],
       Diagnose ''npm install expres'' ''npm ERR! 404 Not Found: expres'',
       MatchCall ''apt'' ''npm install expres'' ''npm ERR! 404 Not Found: expres'',
       MatchCall ''npm'' ''npm install expres'' ''npm ERR! 404 Not Found: expres'',
       SuggestCall ''npm'' ''npm install expres'' ''npm ERR! 404 Not Found: expres'',
       Present ''npm install express'' ''npm'',
       Exec [''npm'', ''install'', ''express'']])"
  by code_simp

theorem succeeded_command_returns_nil_witness:
  "fst (runMonitored zeroExitWorld [''npm'', ''install'', ''expres'']) = None
   \<and> runSuggestion zeroExitWorld [''npm'', ''install'', ''express''] = Some ''exit status 1''
   \<and> fst (ExecuteWithMonitoring zeroExitWorld [''npm'', ''install'', ''expres'']) = None"
  using succeeded_command_returns_nil [of zeroExitWorld "[''npm'', ''install'', ''expres'']"]
  by (simp add: zeroExitWorld_def exampleWorld_def)

section \<open>The registry is a filter of a fixed list\<close>

lemma enabledMap_fold:
  "fold (\<lambda>plugin m. m(TrimSpace plugin := True)) xs m0 name =
     (m0 name \<or> name \<in> set (map TrimSpace xs))"
  by (induction xs arbitrary: m0) auto

lemma plugin_names:
  "Name AptPlugin = ''apt''" "Name NpmPlugin = ''npm''" "Name GitPlugin = ''git''"
  "Name DockerPlugin = ''docker''" "Name PipPlugin = ''pip''"
  "Name SystemctlPlugin = ''systemctl''"
  by (simp_all add: AptPlugin_def NpmPlugin_def GitPlugin_def DockerPlugin_def PipPlugin_def
        SystemctlPlugin_def)

lemma LoadAllPlugins_filter:
  "LoadAllPlugins w =
     (case AppConfig w of
        None \<Rightarrow> []
      | Some c \<Rightarrow>
          filter (\<lambda>p. Name p \<in> set (map TrimSpace (Split (EnablePlugins c) '','')))
            registryOrder)"
  by (simp add: LoadAllPlugins_def Let_def enabledMap_fold registryOrder_def plugin_names
        split: option.splits)







section \<open>Who consults the generative client\<close>

lemma tryPlugins_events: "ev \<in> set (snd (tryPlugins w ps c out)) \<Longrightarrow> pluginEvent ev"
proof (induction ps)
  case Nil
  then show ?case by simp
next
  case (Cons p ps)
  obtain s prompts where sp: "Suggest p w c out = (s, prompts)"
    by (cases "Suggest p w c out")
  obtain r tr where rt: "tryPlugins w ps c out = (r, tr)"
    by (cases "tryPlugins w ps c out")
  from Cons sp rt show ?case
    by (auto simp: Let_def split: if_splits)
qed

lemma executeSuggestion_events:
  "ev \<in> set (snd (executeSuggestion w s)) \<Longrightarrow> userEvent ev"
  by (auto simp: executeSuggestion_def Let_def split: if_splits option.splits)

lemma presentSuggestion_events:
  "ev \<in> set (snd (presentSuggestion w c out s src)) \<Longrightarrow> userEvent ev"
proof -
  obtain ok tr where ex: "executeSuggestion w s = (ok, tr)"
    by (cases "executeSuggestion w s")
  assume "ev \<in> set (snd (presentSuggestion w c out s src))"
  with ex executeSuggestion_events [of ev w s] show ?thesis
    by (auto simp: presentSuggestion_def Let_def split: if_splits sum.splits)
qed

lemma handleError_trace:
  "\<exists>tail. snd (handleError w e c out) =
            Diagnose c out # snd (tryPlugins w (plugins e) c out)
            @ (if fst (tryPlugins w (plugins e) c out) = None
               then [AICall (enginePrompt c out)] else [])
            @ tail
          \<and> (\<forall>ev\<in>set tail. userEvent ev)"
proof -
  obtain r tr where rt: "tryPlugins w (plugins e) c out = (r, tr)"
    by (cases "tryPlugins w (plugins e) c out")
  show ?thesis
  proof (cases r)
    case None
    show ?thesis
    proof (cases "GetSuggestion w (enginePrompt c out)")
      case (Inl err)
      with rt None show ?thesis by (simp add: handleError_def)
    next
      case (Inr s)
      obtain ok tr' where pr: "presentSuggestion w c out s ''AI'' = (ok, tr')"
        by (cases "presentSuggestion w c out s ''AI''")
      with presentSuggestion_events [of _ w c out s "''AI''"]
      have "\<forall>ev\<in>set tr'. userEvent ev" by simp
      with rt None Inr pr show ?thesis by (simp add: handleError_def)
    qed
  next
    case (Some ss)
    obtain s src where ss: "ss = (s, src)" by (cases ss)
    obtain ok tr' where pr: "presentSuggestion w c out s src = (ok, tr')"
      by (cases "presentSuggestion w c out s src")
    with presentSuggestion_events [of _ w c out s src]
    have "\<forall>ev\<in>set tr'. userEvent ev" by simp
    with rt Some ss pr show ?thesis by (simp add: handleError_def)
  qed
qed

text \<open>
  C1, as the code has it.  The call of \<open>ai.GetSuggestion\<close> that the engine itself makes,
  with the prompt \<open>Command: ... Error: ... Provide a corrected command:\<close>, comes after the
  plugin loop, and it is made exactly when every plugin of the registry either does not
  match or suggests nothing.  This holds for \<open>ProcessError\<close> and for \<open>handleError\<close>,
  whose remaining events are those of \<open>presentSuggestion\<close>.  The calls that the plugins
  make to the client on their own are part of what consulting them leaves in the trace.
\<close>

theorem engine_fallback_after_plugins:
  "snd (ProcessError w e command output) =
     concat (map (consult w command output) (consulted w command output (plugins e)))
     @ (if \<forall>q\<in>set (plugins e).
             \<not> Match q command output \<or> fst (Suggest q w command output) = []
        then [AICall (enginePrompt command output)] else [])
   \<and> (\<exists>tail. snd (handleError w e command output) =
          Diagnose command output
          # concat (map (consult w command output) (consulted w command output (plugins e)))
          @ (if \<forall>q\<in>set (plugins e).
                  \<not> Match q command output \<or> fst (Suggest q w command output) = []
             then [AICall (enginePrompt command output)] else [])
          @ tail
        \<and> (\<forall>ev\<in>set tail. userEvent ev))"
proof
  show "snd (ProcessError w e command output) =
     concat (map (consult w command output) (consulted w command output (plugins e)))
     @ (if \<forall>q\<in>set (plugins e).
             \<not> Match q command output \<or> fst (Suggest q w command output) = []
        then [AICall (enginePrompt command output)] else [])"
    using tryPlugins_trace [of w "plugins e" command "output"]
          tryPlugins_None_iff [of w "plugins e" command "output"]
    by (auto simp: ProcessError_def split: prod.splits option.splits sum.splits)
next
  show "\<exists>tail. snd (handleError w e command output) =
          Diagnose command output
          # concat (map (consult w command output) (consulted w command output (plugins e)))
          @ (if \<forall>q\<in>set (plugins e).
                  \<not> Match q command output \<or> fst (Suggest q w command output) = []
             then [AICall (enginePrompt command output)] else [])
          @ tail
        \<and> (\<forall>ev\<in>set tail. userEvent ev)"
    using handleError_trace [of w e command "output"]
    by (simp only: tryPlugins_trace tryPlugins_None_iff)
qed

lemma apt_example_registry: "plugins (New aptWorld) = [AptPlugin]"
proof -
  have "map TrimSpace (Split ''apt'' '','') = [''apt'']" by code_simp
  then show ?thesis
    by (simp add: New_def LoadAllPlugins_filter aptWorld_def exampleWorld_def
          exampleConfig_def registryOrder_def plugin_names)
qed

lemma apt_example_match: "AptPlugin_Match aptCommand aptOutput = True"
  by code_simp

lemma apt_example_quickfix: "AptPlugin_getQuickFix aptCommand aptOutput = []"
  by code_simp

lemma apt_example_client: "NewAIClient aptWorld = None"
  by code_simp

lemma apt_example_suggest:
  "AptPlugin_Suggest aptWorld aptCommand aptOutput =
     (''sudo apt update && apt search <package-name> && apt install foo'',
      [AptPlugin_buildAIPrompt aptCommand aptOutput])"
  by (simp add: AptPlugin_Suggest_def apt_example_quickfix AptPlugin_getAISuggestion_def
        askAI_def GetSuggestion_def apt_example_client) (simp add: aptCommand_def)

lemma apt_example_git: "GitPlugin_Match aptCommand aptOutput = False"
  by code_simp

text \<open>
  With the registry of the apt plugin alone the engine makes no call of its own; with the
  registry of the git plugin alone, which does not match an apt command, it does.
\<close>

theorem engine_fallback_after_plugins_witness:
  "snd (ProcessError aptWorld (New aptWorld) aptCommand aptOutput) =
     [MatchCall ''apt'' aptCommand aptOutput, SuggestCall ''apt'' aptCommand aptOutput,
      AICall (AptPlugin_buildAIPrompt aptCommand aptOutput)]
   \<and> snd (ProcessError aptWorld \<lparr>plugins = [GitPlugin]\<rparr> aptCommand aptOutput) =
     [MatchCall ''git'' aptCommand aptOutput, AICall (enginePrompt aptCommand aptOutput)]"
  using engine_fallback_after_plugins [of aptWorld "New aptWorld" aptCommand aptOutput]
        engine_fallback_after_plugins [of aptWorld "\<lparr>plugins = [GitPlugin]\<rparr>" aptCommand
          aptOutput]
  by (simp add: apt_example_registry consulted_def declines_def consult_def AptPlugin_def
        GitPlugin_def apt_example_match apt_example_suggest apt_example_git)

text \<open>
  C1, as it is stated, fails: the apt plugin matches, finds no quick fix, calls
  \<open>ai.GetSuggestion\<close> itself and returns a suggestion that is not empty.  The client is
  consulted although a matcher of the registry matches and suggests something.
\<close>

theorem plugin_consults_client_counterexample:
  "plugins (New aptWorld) = [AptPlugin]
   \<and> Match AptPlugin aptCommand aptOutput
   \<and> fst (Suggest AptPlugin aptWorld aptCommand aptOutput)
       = ''sudo apt update && apt search <package-name> && apt install foo''
   \<and> ProcessError aptWorld (New aptWorld) aptCommand aptOutput =
       (Inr ''sudo apt update && apt search <package-name> && apt install foo'',
        [MatchCall ''apt'' aptCommand aptOutput, SuggestCall ''apt'' aptCommand aptOutput,
         AICall (AptPlugin_buildAIPrompt aptCommand aptOutput)])"
  by (simp add: apt_example_registry ProcessError_def)
     (simp add: AptPlugin_def apt_example_match apt_example_suggest)

section \<open>What a plugin suggests when no quick fix applies\<close>

text \<open>
  C2, as the code has it.  When \<open>getQuickFix\<close> finds nothing, the apt, npm, docker, pip
  and systemctl plugins send their own prompt to \<open>ai.GetSuggestion\<close> and return its
  reply, or a fixed text of their own, which is never empty, when the client returns an
  error.  Only the git plugin returns the empty string when none of its rules applies: the
  command has fewer than two tokens, or its second token is not in the table and the output
  names neither a missing repository nor a pathspec.  No plugin returns an error.
\<close>

theorem suggest_without_quick_fix:
  "(AptPlugin_getQuickFix cmd output = [] \<longrightarrow>
      AptPlugin_Suggest w cmd output =
        (case GetSuggestion w (AptPlugin_buildAIPrompt cmd output) of
           Inl err \<Rightarrow> ''sudo apt update && apt search <package-name> && '' @ cmd
         | Inr reply \<Rightarrow> reply,
         [AptPlugin_buildAIPrompt cmd output]))
   \<and> (NpmPlugin_getQuickFix cmd output = [] \<longrightarrow>
      NpmPlugin_Suggest w cmd output =
        (case GetSuggestion w (NpmPlugin_buildAIPrompt cmd output) of
           Inl err \<Rightarrow> ''npm --help # Check the correct NPM command syntax''
         | Inr reply \<Rightarrow> reply,
         [NpmPlugin_buildAIPrompt cmd output]))
   \<and> (DockerPlugin_getQuickFix w cmd output = [] \<longrightarrow>
      DockerPlugin_Suggest w cmd output =
        (case GetSuggestion w (DockerPlugin_buildAIPrompt cmd output) of
           Inl err \<Rightarrow> ''docker --help # Check the correct Docker command syntax''
         | Inr reply \<Rightarrow> reply,
         [DockerPlugin_buildAIPrompt cmd output]))
   \<and> (PipPlugin_getQuickFix cmd output = [] \<longrightarrow>
      PipPlugin_Suggest w cmd output =
        (case GetSuggestion w (PipPlugin_buildAIPrompt cmd output) of
           Inl err \<Rightarrow> ''pip3 --help # Check the correct pip command syntax''
         | Inr reply \<Rightarrow> reply,
         [PipPlugin_buildAIPrompt cmd output]))
   \<and> (SystemctlPlugin_getQuickFix cmd output = [] \<longrightarrow>
      SystemctlPlugin_Suggest w cmd output =
        (case GetSuggestion w (SystemctlPlugin_buildAIPrompt cmd output) of
           Inl err \<Rightarrow> ''systemctl --help # Check the correct systemctl command syntax''
         | Inr reply \<Rightarrow> reply,
         [SystemctlPlugin_buildAIPrompt cmd output]))
   \<and> (length (Fields cmd) < 2
        \<or> map_of GitPlugin_commandCorrections (Fields cmd ! 1) = None
          \<and> \<not> Contains output ''not a git repository'' \<and> \<not> Contains output ''pathspec'' \<longrightarrow>
      GitPlugin_Suggest w cmd output = ([], []))"
  by (auto simp: AptPlugin_Suggest_def AptPlugin_getAISuggestion_def
        NpmPlugin_Suggest_def NpmPlugin_getAISuggestion_def
        DockerPlugin_Suggest_def DockerPlugin_getAISuggestion_def
        PipPlugin_Suggest_def PipPlugin_getAISuggestion_def
        SystemctlPlugin_Suggest_def SystemctlPlugin_getAISuggestion_def
        GitPlugin_Suggest_def askAI_def Let_def split: sum.splits)

text \<open>
  One command for each plugin on which the plugin matches and has no quick fix, in a world
  whose client answers and in a world whose client has no key.
\<close>

lemma ruleless_matches:
  "NpmPlugin_Match ''npm start'' ''npm ERR! network request failed'' = True"
  "DockerPlugin_Match ''docker pull foo/bar'' ''Error response from daemon: pull access denied'' = True"
  "PipPlugin_Match ''pip3 install numpy'' ''ERROR: Connection error'' = True"
  "SystemctlPlugin_Match ''systemctl start nginx'' ''Job failed. See journalctl'' = True"
  "GitPlugin_Match ''git status'' ''fatal: unable to access'' = True"
  by code_simp+

lemma ruleless_quickfixes:
  "NpmPlugin_getQuickFix ''npm start'' ''npm ERR! network request failed'' = []"
  "DockerPlugin_getQuickFix w ''docker pull foo/bar''
     ''Error response from daemon: pull access denied'' = []"
  "PipPlugin_getQuickFix ''pip3 install numpy'' ''ERROR: Connection error'' = []"
  "SystemctlPlugin_getQuickFix ''systemctl start nginx'' ''Job failed. See journalctl'' = []"
  by code_simp+

lemma ruleless_git:
  "Fields ''git status'' = [''git'', ''status'']"
  "map_of GitPlugin_commandCorrections ''status'' = None"
  "Contains ''fatal: unable to access'' ''not a git repository'' = False"
  "Contains ''fatal: unable to access'' ''pathspec'' = False"
  by code_simp+

lemma answering_client:
  "GetSuggestion (answeringWorld fencedReply) prompt = Inr ''sudo apt install foo-tools''"
proof -
  have "extractCommand (TrimSpace fencedReply) = ''sudo apt install foo-tools''"
    by code_simp
  then show ?thesis
    by (simp add: GetSuggestion_def NewAIClient_def GenerateSuggestion_def answeringWorld_def
          exampleWorld_def exampleConfig_def)
qed

lemma silent_client: "GetSuggestion aptWorld prompt = Inl ''failed to initialize AI client''"
  by (simp add: GetSuggestion_def apt_example_client)

theorem suggest_without_quick_fix_witness:
  "AptPlugin_getQuickFix aptCommand aptOutput = []
   \<and> fst (AptPlugin_Suggest (answeringWorld fencedReply) aptCommand aptOutput)
       = ''sudo apt install foo-tools''
   \<and> fst (NpmPlugin_Suggest aptWorld ''npm start'' ''npm ERR! network request failed'')
       = ''npm --help # Check the correct NPM command syntax''
   \<and> fst (DockerPlugin_Suggest aptWorld ''docker pull foo/bar''
           ''Error response from daemon: pull access denied'')
       = ''docker --help # Check the correct Docker command syntax''
   \<and> fst (PipPlugin_Suggest aptWorld ''pip3 install numpy'' ''ERROR: Connection error'')
       = ''pip3 --help # Check the correct pip command syntax''
   \<and> fst (SystemctlPlugin_Suggest aptWorld ''systemctl start nginx''
           ''Job failed. See journalctl'')
       = ''systemctl --help # Check the correct systemctl command syntax''
   \<and> GitPlugin_Suggest aptWorld ''git status'' ''fatal: unable to access'' = ([], [])"
proof -
  have apt: "fst (AptPlugin_Suggest (answeringWorld fencedReply) aptCommand aptOutput)
               = ''sudo apt install foo-tools''"
    using suggest_without_quick_fix [of aptCommand aptOutput "answeringWorld fencedReply"]
    by (simp add: apt_example_quickfix answering_client)
  have npm: "fst (NpmPlugin_Suggest aptWorld ''npm start'' ''npm ERR! network request failed'')
               = ''npm --help # Check the correct NPM command syntax''"
    using suggest_without_quick_fix
            [of "''npm start''" "''npm ERR! network request failed''" aptWorld]
    by (simp add: ruleless_quickfixes silent_client)
  have docker: "fst (DockerPlugin_Suggest aptWorld ''docker pull foo/bar''
                       ''Error response from daemon: pull access denied'')
                  = ''docker --help # Check the correct Docker command syntax''"
    using suggest_without_quick_fix
            [of "''docker pull foo/bar''" "''Error response from daemon: pull access denied''"
                aptWorld]
    by (simp add: ruleless_quickfixes silent_client)
  have pip: "fst (PipPlugin_Suggest aptWorld ''pip3 install numpy'' ''ERROR: Connection error'')
               = ''pip3 --help # Check the correct pip command syntax''"
    using suggest_without_quick_fix
            [of "''pip3 install numpy''" "''ERROR: Connection error''" aptWorld]
    by (simp add: ruleless_quickfixes silent_client)
  have systemctl: "fst (SystemctlPlugin_Suggest aptWorld ''systemctl start nginx''
                          ''Job failed. See journalctl'')
                     = ''systemctl --help # Check the correct systemctl command syntax''"
    using suggest_without_quick_fix
            [of "''systemctl start nginx''" "''Job failed. See journalctl''" aptWorld]
    by (simp add: ruleless_quickfixes silent_client)
  have git: "GitPlugin_Suggest aptWorld ''git status'' ''fatal: unable to access'' = ([], [])"
    using suggest_without_quick_fix
            [of "''git status''" "''fatal: unable to access''" aptWorld]
    by (simp add: ruleless_git)
  from apt npm docker pip systemctl git show ?thesis
    by (simp add: apt_example_quickfix)
qed

text \<open>
  C2, as it is stated, fails: on this command the apt plugin matches, no correction rule
  applies, the client has no key, and \<open>Suggest\<close> returns a text that is not empty.
\<close>

theorem apt_generic_text_counterexample:
  "Match AptPlugin aptCommand aptOutput
   \<and> AptPlugin_getQuickFix aptCommand aptOutput = []
   \<and> GetSuggestion aptWorld (AptPlugin_buildAIPrompt aptCommand aptOutput)
       = Inl ''failed to initialize AI client''
   \<and> fst (Suggest AptPlugin aptWorld aptCommand aptOutput)
       = ''sudo apt update && apt search <package-name> && apt install foo''"
  by (simp add: AptPlugin_def apt_example_match apt_example_quickfix apt_example_suggest
        silent_client)

section \<open>Letter case in \<open>Match\<close>\<close>

lemma containsAny_lower:
  "ToLower a = ToLower b \<Longrightarrow> containsAny a ps = containsAny b ps"
  by (simp add: containsAny_def)

text \<open>
  C6, as the code has it.  Two commands that differ in letter case only, and two outputs
  that differ in letter case only, are matched alike by the apt, npm, docker, pip and
  systemctl plugins: each looks for its tool name in the lowered command and for its
  trigger phrases in the lowered output.  The git plugin looks at the output in the same
  way, but it tests the command itself for the prefix \<open>git\<close> and a space.
\<close>

theorem match_ignores_case:
  assumes "ToLower cmd' = ToLower cmd" and "ToLower output' = ToLower output"
  shows "(\<forall>p\<in>set [AptPlugin, NpmPlugin, DockerPlugin, PipPlugin, SystemctlPlugin].
            Match p cmd' output' = Match p cmd output)
       \<and> Match GitPlugin cmd output' = Match GitPlugin cmd output"
  using assms containsAny_lower [OF assms(2)]
  by (simp add: AptPlugin_def NpmPlugin_def DockerPlugin_def PipPlugin_def SystemctlPlugin_def
        GitPlugin_def AptPlugin_Match_def NpmPlugin_Match_def DockerPlugin_Match_def
        PipPlugin_Match_def SystemctlPlugin_Match_def GitPlugin_Match_def)

lemma upper_case_lowered:
  "ToLower ''sudo APT INSTALL REDISCLI'' = ToLower ''sudo apt install rediscli''"
  "ToLower ''E: Unable to locate package REDISCLI''
     = ToLower ''e: unable to locate package rediscli''"
  by code_simp+

lemma lower_case_match:
  "AptPlugin_Match ''sudo apt install rediscli'' ''e: unable to locate package rediscli'' = True"
  by code_simp

theorem match_ignores_case_witness:
  "ToLower ''sudo APT INSTALL REDISCLI'' = ToLower ''sudo apt install rediscli''
   \<and> ToLower ''E: Unable to locate package REDISCLI''
       = ToLower ''e: unable to locate package rediscli''
   \<and> Match AptPlugin ''sudo APT INSTALL REDISCLI'' ''E: Unable to locate package REDISCLI''"
  using match_ignores_case
          [of "''sudo APT INSTALL REDISCLI''" "''sudo apt install rediscli''"
              "''E: Unable to locate package REDISCLI''"
              "''e: unable to locate package rediscli''"]
        upper_case_lowered
  by (simp add: AptPlugin_def lower_case_match)

text \<open>
  C6, as it is stated, fails for the git plugin: the command in upper case is the same
  command up to letter case, and it is not matched.
\<close>

theorem git_match_case_counterexample:
  "ToLower ''GIT status'' = ToLower ''git status''
   \<and> Match GitPlugin ''git status'' ''fatal: not a git repository''
   \<and> \<not> Match GitPlugin ''GIT status'' ''fatal: not a git repository''"
proof -
  have "ToLower ''GIT status'' = ToLower ''git status''"
    by code_simp
  moreover have "GitPlugin_Match ''git status'' ''fatal: not a git repository'' = True"
    by code_simp
  moreover have "GitPlugin_Match ''GIT status'' ''fatal: not a git repository'' = False"
    by code_simp
  ultimately show ?thesis by (simp add: GitPlugin_def)
qed

section \<open>When the monitor starts a diagnosis\<close>

lemma handleError_Diagnose:
  "Diagnose c' out' \<in> set (snd (handleError w e c out)) \<longleftrightarrow> c' = c \<and> out' = out"
proof -
  obtain tail where t: "snd (handleError w e c out) =
       Diagnose c out # snd (tryPlugins w (plugins e) c out)
       @ (if fst (tryPlugins w (plugins e) c out) = None
          then [AICall (enginePrompt c out)] else [])
       @ tail"
     and u: "\<forall>ev\<in>set tail. userEvent ev"
    using handleError_trace by blast
  have "Diagnose c' out' \<notin> set tail" using u by fastforce
  moreover have "Diagnose c' out' \<notin> set (snd (tryPlugins w (plugins e) c out))"
    using tryPlugins_events [of "Diagnose c' out'" w "plugins e" c out] by auto
  ultimately show ?thesis using t by auto
qed

text \<open>
  C8, as the code has it.  The monitor enters \<open>handleError\<close> only behind \<open>detectError\<close>.
  After an exit that is not zero the output it looks at is the captured standard error, or
  the captured standard output when the standard error is empty; after an exit with status
  zero it is the captured standard output alone.  The diagnosis runs exactly when that
  output holds one of the error indicators, and it is given the arguments of the command
  joined by spaces and that output.
\<close>

theorem diagnosis_is_gated:
  assumes "runMonitored w args = (err, stdout, stderr)"
  shows "Diagnose c out \<in> set (snd (ExecuteWithMonitoring w args)) \<longleftrightarrow>
           c = Join args '' ''
           \<and> out = (if err = None then stdout else if stderr = [] then stdout else stderr)
           \<and> detectError out"
proof (cases err)
  case None
  obtain ok tr where h: "handleError w (New w) (Join args '' '') stdout = (ok, tr)"
    by (cases "handleError w (New w) (Join args '' '') stdout")
  with handleError_Diagnose [of c out w "New w" "Join args '' ''" stdout]
  have "Diagnose c out \<in> set tr \<longleftrightarrow> c = Join args '' '' \<and> out = stdout" by simp
  with assms None h show ?thesis
    by (auto simp: ExecuteWithMonitoring_def Let_def)
next
  case (Some e)
  define chosen where "chosen = (if stderr = [] then stdout else stderr)"
  obtain ok tr where h: "handleError w (New w) (Join args '' '') chosen = (ok, tr)"
    by (cases "handleError w (New w) (Join args '' '') chosen")
  with handleError_Diagnose [of c out w "New w" "Join args '' ''" chosen]
  have "Diagnose c out \<in> set tr \<longleftrightarrow> c = Join args '' '' \<and> out = chosen" by simp
  with assms Some h show ?thesis
    by (auto simp: ExecuteWithMonitoring_def Let_def chosen_def split: if_splits)
qed

lemma apt_example_detect: "detectError aptOutput = True"
  by code_simp

theorem diagnosis_is_gated_witness:
  "runMonitored aptWorld [''apt'', ''install'', ''foo'']
     = (Some ''exit status 100'', [], aptOutput)
   \<and> Diagnose ''apt install foo'' aptOutput
       \<in> set (snd (ExecuteWithMonitoring aptWorld [''apt'', ''install'', ''foo'']))"
proof -
  have r: "runMonitored aptWorld [''apt'', ''install'', ''foo'']
             = (Some ''exit status 100'', [], aptOutput)"
    by (simp add: aptWorld_def exampleWorld_def)
  have "aptOutput \<noteq> []" by (simp add: aptOutput_def)
  with r diagnosis_is_gated [OF r, of "''apt install foo''" aptOutput] show ?thesis
    by (simp add: apt_example_detect)
qed

text \<open>
  C8, as it is stated, fails in both of its parts.  A command that exits with a status that
  is not zero and prints no error indicator is not diagnosed.  A command that exits with
  status zero and prints an indicator on standard error only is not diagnosed either, and
  when it prints on both streams the diagnosis is given the standard output.
\<close>

theorem diagnosis_skipped_counterexample:
  "ExecuteWithMonitoring crashWorld [''./a.out'']
     = (Some ''signal: segmentation fault'', [Run [''./a.out'']])
   \<and> detectError ''make: warning: permission denied''
   \<and> ExecuteWithMonitoring warningWorld [''make''] = (None, [Run [''make'']])
   \<and> ExecuteWithMonitoring bothStreamsWorld [''make'']
     = (None, [Run [''make''], Diagnose ''make'' ''error: a'',
               AICall (enginePrompt ''make'' ''error: a'')])"
proof -
  have "ExecuteWithMonitoring crashWorld [''./a.out'']
          = (Some ''signal: segmentation fault'', [Run [''./a.out'']])"
    by code_simp
  moreover have "detectError ''make: warning: permission denied'' = True"
    by code_simp
  moreover have "ExecuteWithMonitoring warningWorld [''make''] = (None, [Run [''make'']])"
    by code_simp
  moreover have "ExecuteWithMonitoring bothStreamsWorld [''make'']
     = (None, [Run [''make''], Diagnose ''make'' ''error: a'',
               AICall (enginePrompt ''make'' ''error: a'')])"
    by code_simp
  ultimately show ?thesis by simp
qed

section \<open>Facts about the strings package\<close>

lemma HasPrefix_prefix: "HasPrefix s p \<longleftrightarrow> prefix p s"
  by (induction s p rule: HasPrefix.induct) auto



lemma Index_Some:
  "Index s sub = Some i \<Longrightarrow> s = take i s @ sub @ drop (i + length sub) s"
proof (induction s arbitrary: i)
  case Nil
  then show ?case by (simp split: if_splits)
next
  case (Cons c cs)
  show ?case
  proof (cases "HasPrefix (c # cs) sub")
    case True
    with Cons.prems have "i = 0" by simp
    moreover from True obtain r where "c # cs = sub @ r"
      by (auto simp: HasPrefix_prefix prefix_def)
    ultimately show ?thesis by simp
  next
    case False
    with Cons.prems obtain j where j: "Index cs sub = Some j" "i = Suc j" by auto
    from Cons.IH [OF j(1)] j(2) show ?thesis by simp
  qed
qed

lemma hasToken_append [simp]: "hasToken (a @ b) \<longleftrightarrow> hasToken a \<or> hasToken b"
  by (auto simp: hasToken_def list_ex_iff)


lemma hasToken_Nil [simp]: "\<not> hasToken []"
  by (simp add: hasToken_def)



lemma Fields_Nil [simp]: "Fields [] = []"
  by (simp add: Fields.simps)










lemma Split_not_Nil: "sep \<noteq> [] \<Longrightarrow> Split s sep \<noteq> []"
  by (subst Split.simps) (simp split: option.splits)

section \<open>The verb-typo rule of npm and docker\<close>














section \<open>Correcting a corrected command\<close>



















section \<open>Every suggestion has a token\<close>







































section \<open>Running a confirmed suggestion\<close>












end
